theory Spec2Isabelle
  imports Main
begin

section \<open>The evaluation core of the template runtime (htmlbars-runtime/lib/template.ts)\<close>

text \<open>
  A shallow embedding of \<^verbatim>\<open>src/packages/htmlbars-runtime/lib/template.ts\<close>: the wire
  tuples, the expression and statement syntax, the composite argument references, the
  templates and the fallback render node. JavaScript \<^verbatim>\<open>null\<close> and
  \<^verbatim>\<open>undefined\<close> of a field are \<open>None\<close>; a thrown exception is \<open>Inl\<close> of a sum.
  Left out are \<^verbatim>\<open>Template.render\<close> and \<^verbatim>\<open>RootMorph\<close>, which prepare the frame and the
  mount point for \<^verbatim>\<open>evaluate\<close>, and the base class \<^verbatim>\<open>Enumerable\<close>, whose \<^verbatim>\<open>forEach\<close>
  \<^verbatim>\<open>Params\<close> overrides.
\<close>

subsection \<open>Literals, interned strings, errors\<close>

type_synonym InternedString = string

text \<open>The payload of a \<^verbatim>\<open>Value\<close>: what \<^verbatim>\<open>typeof spec !== 'object' || spec === null\<close>
  lets through. Numbers are integers here; nothing below reads their arithmetic.\<close>

datatype lit = LUndefined | LNull | LBool bool | LNum int | LStr string

datatype error = TypeError string | Error string

text \<open>Modelled from the spec: \<^verbatim>\<open>intern\<close> comes from \<^verbatim>\<open>htmlbars-util\<close>, which is not
  among the sources. The spec gives it no behaviour of its own and the source uses it to
  type a string as interned ("intern paths because they will be used as keys"), so it
  returns its argument.\<close>

definition intern :: "'a \<Rightarrow> 'a" where
  "intern s = s"

text \<open>An array read \<^verbatim>\<open>xs[i]\<close>: \<^verbatim>\<open>undefined\<close> out of range.\<close>

definition nth_js :: "'a list \<Rightarrow> nat \<Rightarrow> 'a option" where
  "nth_js xs i = (if i < length xs then Some (xs ! i) else None)"

text \<open>Truthiness of a string-or-null field, as in \<^verbatim>\<open>if (namespace)\<close>.\<close>

definition truthy :: "string option \<Rightarrow> bool" where
  "truthy s = (case s of None \<Rightarrow> False | Some t \<Rightarrow> t \<noteq> [])"

text \<open>\<^verbatim>\<open>path.split('.')\<close>: the segments between dots; the empty string gives one empty
  segment.\<close>

fun split_dot :: "string \<Rightarrow> string list" where
  "split_dot [] = [[]]"
| "split_dot (c # cs) =
     (if c = CHR ''.'' then [] # split_dot cs
      else (case split_dot cs of [] \<Rightarrow> [[c]] | seg # segs \<Rightarrow> (c # seg) # segs))"

text \<open>\<^verbatim>\<open>parts.join('.')\<close>.\<close>

fun join_dot :: "string list \<Rightarrow> string" where
  "join_dot [] = []"
| "join_dot [s] = s"
| "join_dot (s # t # ts) = s @ CHR ''.'' # join_dot (t # ts)"

text \<open>\<^verbatim>\<open>internPath\<close> (lines 888-890).\<close>

definition internPath :: "string \<Rightarrow> InternedString list" where
  "internPath path = map intern (split_dot path)"

subsection \<open>The wire format\<close>

text \<open>
  The tuples \<^verbatim>\<open>[tag, ...fields]\<close>, one constructor per tuple type of the source
  (\<^verbatim>\<open>GetSexp\<close>, \<^verbatim>\<open>HelperSexp\<close>, \<^verbatim>\<open>BlockSexp\<close>, ...), with the tag of a statement
  tuple read back by \<open>statement_tag\<close>. \<open>OtherExpressionSexp t\<close> and \<open>OtherSexp t\<close> are
  tuples whose tag \<open>t\<close> is no key of the dispatch table. A params or hash field may be
  \<^verbatim>\<open>null\<close>. A hash is the flat array \<^verbatim>\<open>[k1, e1, k2, e2, ...]\<close>, kept as its pairs; an
  array of odd length reads \<^verbatim>\<open>undefined\<close> for the last expression, which is the pair
  with \<open>LiteralSexp LUndefined\<close>.
\<close>

type_synonym PathSexp = "InternedString list"

datatype ExpressionSexp =
    LiteralSexp lit
  | GetSexp PathSexp
  | HelperSexp PathSexp "ExpressionSexp list option" "(InternedString \<times> ExpressionSexp) list option"
  | ConcatSexp "ExpressionSexp list option"
  | OtherExpressionSexp string

type_synonym ParamsSexp = "ExpressionSexp list option"
type_synonym HashSexp = "(InternedString \<times> ExpressionSexp) list option"

datatype StatementSexp =
    BlockSexp PathSexp ParamsSexp HashSexp "nat option" "nat option"
  | InlineSexp PathSexp ParamsSexp HashSexp bool
  | UnknownSexp PathSexp bool
  | DynamicAttrSexp InternedString ExpressionSexp "InternedString option"
  | DynamicPropSexp InternedString ExpressionSexp "InternedString option"
  | ComponentSexp InternedString HashSexp "nat option" "nat option"
  | TextSexp string
  | CommentSexp string
  | OpenElementSexp string
  | CloseElementSexp
  | StaticAttrSexp InternedString InternedString "InternedString option"
  | OtherSexp string

fun statement_tag :: "StatementSexp \<Rightarrow> string" where
  "statement_tag (BlockSexp _ _ _ _ _) = ''block''"
| "statement_tag (InlineSexp _ _ _ _) = ''inline''"
| "statement_tag (UnknownSexp _ _) = ''unknown''"
| "statement_tag (DynamicAttrSexp _ _ _) = ''dynamicAttr''"
| "statement_tag (DynamicPropSexp _ _ _) = ''dynamicProp''"
| "statement_tag (ComponentSexp _ _ _ _) = ''component''"
| "statement_tag (TextSexp _) = ''text''"
| "statement_tag (CommentSexp _) = ''comment''"
| "statement_tag (OpenElementSexp _) = ''openElement''"
| "statement_tag CloseElementSexp = ''closeElement''"
| "statement_tag (StaticAttrSexp _ _ _) = ''staticAttr''"
| "statement_tag (OtherSexp t) = t"

record TemplateSpec =
  spec_statements :: "StatementSexp list"
  spec_locals :: "InternedString list option"
  spec_meta :: "(string \<times> lit) list option"

subsection \<open>References\<close>

text \<open>
  Modelled from the spec: the reference primitives come from \<^verbatim>\<open>htmlbars-reference\<close>,
  which is not among the sources. A constant reference holds a fixed value; a push-pull
  reference aggregates the source references registered with \<^verbatim>\<open>_addSource\<close>, which
  returns the reference it registered; \<^verbatim>\<open>chain\<close> registers a dependent on a reference;
  \<^verbatim>\<open>get(segment)\<close> narrows a reference. \<open>OpaqueReference\<close> is a reference the
  environment owns (a scope base, a helper constant). The constructors below the first
  three are the push-pull classes of this file, each with the \<open>sources\<close> of its base
  class.
\<close>

datatype Reference =
    ConstReference lit
  | OpaqueReference nat
  | PathReference Reference InternedString
  | HelperInvocationReference "Reference list" Reference Reference
  | ConcatReference "Reference list" "Reference list"
  | EvaluatedParams "Reference list" "Reference list"
  | EvaluatedHash "Reference list" "Reference list" "InternedString list"
  | EvaluatedParamsAndHash "Reference list" Reference Reference

fun sources :: "Reference \<Rightarrow> Reference list" where
  "sources (HelperInvocationReference srcs _ _) = srcs"
| "sources (ConcatReference srcs _) = srcs"
| "sources (EvaluatedParams srcs _) = srcs"
| "sources (EvaluatedHash srcs _ _) = srcs"
| "sources (EvaluatedParamsAndHash srcs _ _) = srcs"
| "sources _ = []"

definition addSource :: "Reference list \<Rightarrow> Reference \<Rightarrow> Reference list \<times> Reference" where
  "addSource srcs r = (srcs @ [r], r)"

definition Reference_get :: "Reference \<Rightarrow> InternedString \<Rightarrow> Reference" where
  "Reference_get r segment = PathReference r segment"

subsection \<open>Expression syntax\<close>

datatype Ref = Ref (parts: "InternedString list")

datatype ExpressionSyntax =
    Value lit
  | Get Ref
  | Helper Ref ParamsAndHash
  | Concat Params
  | EvaluatedRef Reference
and Params = Params (exprs: "ExpressionSyntax list")
and Hash = Hash (keys: "InternedString list") (vals: "ExpressionSyntax list")
and ParamsAndHash = ParamsAndHash (params: Params) (hash: Hash)

fun ExpressionSyntax_isStatic :: "ExpressionSyntax \<Rightarrow> bool" where
  "ExpressionSyntax_isStatic (Value _) = True"
| "ExpressionSyntax_isStatic (Get _) = False"
| "ExpressionSyntax_isStatic (Helper _ _) = False"
| "ExpressionSyntax_isStatic (Concat _) = False"
| "ExpressionSyntax_isStatic (EvaluatedRef _) = False"

definition Ref_build :: "string \<Rightarrow> Ref" where
  "Ref_build path = Ref (internPath path)"

definition Ref_path :: "Ref \<Rightarrow> InternedString list" where
  "Ref_path r = parts r"

definition Params_empty :: Params where
  "Params_empty = Params []"

definition Hash_empty :: Hash where
  "Hash_empty = Hash [] []"

definition ParamsAndHash_empty :: ParamsAndHash where
  "ParamsAndHash_empty = ParamsAndHash Params_empty Hash_empty"

subsection \<open>Decoding expressions (\<^verbatim>\<open>buildExpression\<close> and the \<^verbatim>\<open>fromSpec\<close> of each class)\<close>

text \<open>
  \<^verbatim>\<open>buildExpression\<close> (lines 1055-1061) returns a \<^verbatim>\<open>Value\<close> for a payload that is no
  object and otherwise calls \<^verbatim>\<open>ExpressionNodes[spec[0]].fromSpec(spec)\<close>; a tag that is no
  key of \<^verbatim>\<open>ExpressionNodes\<close> has no \<^verbatim>\<open>fromSpec\<close> to call, a \<^verbatim>\<open>TypeError\<close>.
  \<open>map_buildExpression\<close> is \<^verbatim>\<open>sexp.map(buildExpression)\<close> of \<^verbatim>\<open>Params.fromSpec\<close>,
  \<open>Hash_fromSpec_loop\<close> the loop of \<^verbatim>\<open>Hash.fromSpec\<close>; an exception leaves at the first
  element that raises.
\<close>

fun buildExpression :: "ExpressionSexp \<Rightarrow> error + ExpressionSyntax"
  and map_buildExpression :: "ExpressionSexp list \<Rightarrow> error + ExpressionSyntax list"
  and Hash_fromSpec_loop ::
    "(InternedString \<times> ExpressionSexp) list \<Rightarrow> error + InternedString list \<times> ExpressionSyntax list"
  where
  "buildExpression (LiteralSexp v) = Inr (Value v)"
| "buildExpression (GetSexp ps) = Inr (Get (Ref ps))"
| "buildExpression (HelperSexp path ps raw) =
     (case (case ps of None \<Rightarrow> Inr Params_empty
            | Some sexp \<Rightarrow>
                if sexp = [] then Inr Params_empty
                else (case map_buildExpression sexp of Inl e \<Rightarrow> Inl e | Inr es \<Rightarrow> Inr (Params es)))
      of Inl e \<Rightarrow> Inl e
       | Inr p \<Rightarrow>
          (case (case raw of None \<Rightarrow> Inr Hash_empty
                 | Some rawPairs \<Rightarrow>
                     (case Hash_fromSpec_loop rawPairs of Inl e \<Rightarrow> Inl e
                      | Inr (ks, vs) \<Rightarrow> Inr (Hash ks vs)))
           of Inl e \<Rightarrow> Inl e
            | Inr h \<Rightarrow> Inr (Helper (Ref path) (ParamsAndHash p h))))"
| "buildExpression (ConcatSexp ps) =
     (case (case ps of None \<Rightarrow> Inr Params_empty
            | Some sexp \<Rightarrow>
                if sexp = [] then Inr Params_empty
                else (case map_buildExpression sexp of Inl e \<Rightarrow> Inl e | Inr es \<Rightarrow> Inr (Params es)))
      of Inl e \<Rightarrow> Inl e
       | Inr p \<Rightarrow> Inr (Concat p))"
| "buildExpression (OtherExpressionSexp t) =
     Inl (TypeError ''ExpressionNodes[spec[0]] has no fromSpec'')"
| "map_buildExpression [] = Inr []"
| "map_buildExpression (s # ss) =
     (case buildExpression s of Inl e \<Rightarrow> Inl e
      | Inr x \<Rightarrow> (case map_buildExpression ss of Inl e \<Rightarrow> Inl e | Inr xs \<Rightarrow> Inr (x # xs)))"
| "Hash_fromSpec_loop [] = Inr ([], [])"
| "Hash_fromSpec_loop ((key, expr) # rest) =
     (case buildExpression expr of Inl e \<Rightarrow> Inl e
      | Inr v \<Rightarrow>
         (case Hash_fromSpec_loop rest of Inl e \<Rightarrow> Inl e
          | Inr (ks, vs) \<Rightarrow> Inr (key # ks, v # vs)))"

text \<open>\<^verbatim>\<open>Params.fromSpec\<close> (lines 1134-1137).\<close>

definition Params_fromSpec :: "ParamsSexp \<Rightarrow> error + Params" where
  "Params_fromSpec ps =
     (case ps of None \<Rightarrow> Inr Params_empty
      | Some sexp \<Rightarrow>
          if sexp = [] then Inr Params_empty
          else (case map_buildExpression sexp of Inl e \<Rightarrow> Inl e | Inr es \<Rightarrow> Inr (Params es)))"

text \<open>\<^verbatim>\<open>Hash.fromSpec\<close> (lines 1201-1215).\<close>

definition Hash_fromSpec :: "HashSexp \<Rightarrow> error + Hash" where
  "Hash_fromSpec raw =
     (case raw of None \<Rightarrow> Inr Hash_empty
      | Some rawPairs \<Rightarrow>
          (case Hash_fromSpec_loop rawPairs of Inl e \<Rightarrow> Inl e
           | Inr (ks, vs) \<Rightarrow> Inr (Hash ks vs)))"

text \<open>\<^verbatim>\<open>Hash.build\<close> (lines 1217-1228): the dictionary is the list of its entries in the
  order of \<^verbatim>\<open>Object.keys\<close>, \<open>None\<close> when the argument is \<^verbatim>\<open>undefined\<close>.\<close>

definition Hash_build :: "(InternedString \<times> ExpressionSyntax) list option \<Rightarrow> Hash" where
  "Hash_build h =
     (case h of None \<Rightarrow> Hash_empty
      | Some entries \<Rightarrow> Hash (map fst entries) (map snd entries))"

definition Params_build :: "ExpressionSyntax list \<Rightarrow> Params" where
  "Params_build es = Params es"

text \<open>\<^verbatim>\<open>ParamsAndHash.fromSpec\<close> (lines 1064-1066): the params are decoded first.\<close>

definition ParamsAndHash_fromSpec :: "ParamsSexp \<Rightarrow> HashSexp \<Rightarrow> error + ParamsAndHash" where
  "ParamsAndHash_fromSpec ps raw =
     (case Params_fromSpec ps of Inl e \<Rightarrow> Inl e
      | Inr p \<Rightarrow> (case Hash_fromSpec raw of Inl e \<Rightarrow> Inl e | Inr h \<Rightarrow> Inr (ParamsAndHash p h)))"

definition ParamsAndHash_build :: "Params \<Rightarrow> Hash \<Rightarrow> ParamsAndHash" where
  "ParamsAndHash_build p h = ParamsAndHash p h"

definition Value_build :: "lit \<Rightarrow> ExpressionSyntax" where
  "Value_build v = Value v"

definition Get_build :: "string \<Rightarrow> ExpressionSyntax" where
  "Get_build path = Get (Ref_build path)"

definition Helper_build :: "string \<Rightarrow> Params \<Rightarrow> Hash \<Rightarrow> ExpressionSyntax" where
  "Helper_build path p h = Helper (Ref_build path) (ParamsAndHash p h)"

definition Concat_build :: "Params \<Rightarrow> ExpressionSyntax" where
  "Concat_build ps = Concat ps"

subsection \<open>Values\<close>

text \<open>The values \<^verbatim>\<open>value()\<close> returns: a literal, a function (a helper), an array, or an
  object, kept as its entries in insertion order.\<close>

datatype JsValue =
    JsLit lit
  | JsFunction nat
  | JsArray "JsValue list"
  | JsObject "(string \<times> JsValue) list"

subsection \<open>Statement syntax and templates\<close>

text \<open>The structural dump of \<^verbatim>\<open>prettyPrint\<close>: a value, the value pulled from a
  reference (\<^verbatim>\<open>EvaluatedRef.prettyPrint\<close>), or a \<^verbatim>\<open>PrettyPrint\<close> object with its
  type, operation, params, hash and templates (each of the last three may be
  \<^verbatim>\<open>null\<close>).\<close>

datatype PrettyPrintValue =
    PPValue JsValue
  | PPReferenceValue Reference
  | PrettyPrint string string "PrettyPrintValue list option"
      "(string \<times> PrettyPrintValue) list option" "(string \<times> nat option) list option"

text \<open>
  The statement classes of \<^verbatim>\<open>StatementNodes\<close>. The name of an attribute is \<open>None\<close>
  when it is \<^verbatim>\<open>undefined\<close> (\<^verbatim>\<open>FallbackMorph.init\<close> reads \<^verbatim>\<open>keys[i]\<close>); the hash of a
  component is \<open>None\<close> when \<^verbatim>\<open>Component.build\<close> stored \<^verbatim>\<open>options.hash || null\<close>.
  \<open>ForeignStatement\<close> is an implementation of the exported interface
  \<^verbatim>\<open>StatementSyntax\<close> (\<^verbatim>\<open>evaluate\<close>, \<^verbatim>\<open>type\<close>, \<^verbatim>\<open>isStatic\<close>) from outside this file,
  with the name of its class, its type, its flag and the dump of its \<^verbatim>\<open>prettyPrint\<close>
  method if it has one.
  A \<open>Statement\<close> is a statement object with the two boundary properties that
  \<^verbatim>\<open>buildStatements\<close> may set on it. The \<open>root\<close> of a template is the address of the
  array of sibling templates it was decoded into (the array holds the template itself,
  so the template holds only its address).
\<close>

datatype StatementSyntax =
    Block "InternedString list" ParamsAndHash Templates
  | Unknown Ref bool
  | Inline "InternedString list" bool ParamsAndHash
  | DynamicProp InternedString ExpressionSyntax
  | DynamicAttr "InternedString option" ExpressionSyntax "InternedString option"
  | Component Ref "Hash option" Templates
  | Text string
  | Comment string
  | OpenElement string
  | CloseElement
  | StaticAttr "InternedString option" JsValue "InternedString option"
  | ForeignStatement string string bool "PrettyPrintValue option"
and Templates = Templates (Templates_default: "Template option") (Templates_inverse: "Template option")
and Template =
  Template (meta: "(string \<times> lit) list") (root: "nat option") (position: "nat option")
    (arity: nat) (statements: "Statement list") (locals: "InternedString list")
    (spec: "TemplateSpec option") (isEmpty: bool)
and Statement = Statement (stmt: StatementSyntax) (frontBoundary: bool) (backBoundary: bool)

text \<open>The \<^verbatim>\<open>type\<close> field of each class.\<close>

fun StatementSyntax_type :: "StatementSyntax \<Rightarrow> string" where
  "StatementSyntax_type (Block _ _ _) = ''block''"
| "StatementSyntax_type (Unknown _ _) = ''unknown''"
| "StatementSyntax_type (Inline _ _ _) = ''inline''"
| "StatementSyntax_type (DynamicProp _ _) = ''dynamic-prop''"
| "StatementSyntax_type (DynamicAttr _ _ _) = ''dynamic-attr''"
| "StatementSyntax_type (Component _ _ _) = ''component''"
| "StatementSyntax_type (Text _) = ''text''"
| "StatementSyntax_type (Comment _) = ''comment''"
| "StatementSyntax_type (OpenElement _) = ''open-element''"
| "StatementSyntax_type CloseElement = ''close-element''"
| "StatementSyntax_type (StaticAttr _ _ _) = ''static-attr''"
| "StatementSyntax_type (ForeignStatement _ t _ _) = t"

text \<open>\<^verbatim>\<open>isStatic\<close>: \<^verbatim>\<open>StaticExpression\<close> sets it, \<^verbatim>\<open>DynamicExpression\<close> clears it.\<close>

fun StatementSyntax_isStatic :: "StatementSyntax \<Rightarrow> bool" where
  "StatementSyntax_isStatic (Text _) = True"
| "StatementSyntax_isStatic (Comment _) = True"
| "StatementSyntax_isStatic (OpenElement _) = True"
| "StatementSyntax_isStatic CloseElement = True"
| "StatementSyntax_isStatic (StaticAttr _ _ _) = True"
| "StatementSyntax_isStatic (ForeignStatement _ _ b _) = b"
| "StatementSyntax_isStatic _ = False"

subsection \<open>The frame\<close>

text \<open>
  Modelled from the spec: \<^verbatim>\<open>Frame\<close> comes from \<^verbatim>\<open>./environment\<close>, which is not among
  the sources. The statements read it through \<^verbatim>\<open>scope().getBase(name)\<close>,
  \<^verbatim>\<open>lookupHelper(path)\<close>, \<^verbatim>\<open>hasHelper(path)\<close> and
  \<^verbatim>\<open>getComponentDefinition(path, syntax)\<close>, and never change it.
\<close>

datatype ComponentDefinition = ComponentDefinition nat

datatype Scope = Scope nat

record Frame =
  scope :: Scope
  getBase :: "InternedString option \<Rightarrow> Reference"
  lookupHelper :: "InternedString list \<Rightarrow> Reference"
  hasHelper :: "InternedString list \<Rightarrow> bool"
  getComponentDefinition :: "InternedString list \<Rightarrow> StatementSyntax \<Rightarrow> ComponentDefinition option"

subsection \<open>Evaluating expressions\<close>

text \<open>\<^verbatim>\<open>Ref.evaluate\<close> (lines 912-921): the base of the first segment, narrowed by each
  later segment in turn.\<close>

definition Ref_evaluate :: "Frame \<Rightarrow> Ref \<Rightarrow> Reference" where
  "Ref_evaluate frame r =
     foldl Reference_get (getBase frame (nth_js (parts r) 0)) (drop 1 (parts r))"

definition Ref_isHelper :: "Frame \<Rightarrow> Ref \<Rightarrow> bool" where
  "Ref_isHelper frame r = hasHelper frame (parts r)"

text \<open>The sources after \<^verbatim>\<open>_addSource\<close> was called on each reference in turn.\<close>

definition addSources :: "Reference list \<Rightarrow> Reference list \<Rightarrow> Reference list" where
  "addSources srcs rs = foldl (\<lambda>acc r. fst (addSource acc r)) srcs rs"

text \<open>The constructor of \<^verbatim>\<open>HelperInvocationReference\<close> (lines 379-383).\<close>

definition new_HelperInvocationReference :: "Reference \<Rightarrow> Reference \<Rightarrow> Reference" where
  "new_HelperInvocationReference helper args =
     (let (srcs1, h) = addSource [] helper;
          (srcs2, a) = addSource srcs1 args
      in HelperInvocationReference srcs2 h a)"

text \<open>The constructors of \<^verbatim>\<open>EvaluatedParams\<close> (lines 1173-1181) and \<^verbatim>\<open>EvaluatedHash\<close>
  (lines 1269-1279), given the references their \<^verbatim>\<open>map\<close> callback evaluated: each
  was passed to \<^verbatim>\<open>_addSource\<close>.\<close>

definition new_EvaluatedParams :: "Reference list \<Rightarrow> Reference" where
  "new_EvaluatedParams refs = EvaluatedParams (addSources [] refs) refs"

definition new_EvaluatedHash :: "Reference list \<Rightarrow> InternedString list \<Rightarrow> Reference" where
  "new_EvaluatedHash refs ks = EvaluatedHash (addSources [] refs) refs ks"

text \<open>The constructor of \<^verbatim>\<open>EvaluatedParamsAndHash\<close> (lines 1106-1110), given the two
  evaluated children: \<^verbatim>\<open>this.paramsRef = this._addSource(params.evaluate(frame))\<close> and
  \<^verbatim>\<open>this.hashRef = hash.evaluate(frame)\<close>.\<close>

definition new_EvaluatedParamsAndHash :: "Reference \<Rightarrow> Reference \<Rightarrow> Reference" where
  "new_EvaluatedParamsAndHash evaluatedParams evaluatedHash =
     (let (srcs, paramsRef) = addSource [] evaluatedParams;
          hashRef = evaluatedHash
      in EvaluatedParamsAndHash srcs paramsRef hashRef)"

text \<open>The constructor of \<^verbatim>\<open>ConcatReference\<close> (lines 1021-1027): it registers no source;
  it calls \<^verbatim>\<open>part.chain(this)\<close> on each part, which changes the part and not this
  reference.\<close>

definition new_ConcatReference :: "Reference list \<Rightarrow> Reference" where
  "new_ConcatReference ps = ConcatReference [] ps"

text \<open>
  \<^verbatim>\<open>evaluate\<close> of the expression classes. \<^verbatim>\<open>Hash.evaluate\<close> (lines 1253-1262) first
  evaluates every value into an array it drops, and then constructs the
  \<^verbatim>\<open>EvaluatedHash\<close>, which evaluates every value again; evaluation reads the frame
  and changes nothing, so the first pass leaves no trace here.
\<close>

fun ExpressionSyntax_evaluate :: "Frame \<Rightarrow> ExpressionSyntax \<Rightarrow> Reference"
  and Params_evaluate :: "Frame \<Rightarrow> Params \<Rightarrow> Reference"
  and Hash_evaluate :: "Frame \<Rightarrow> Hash \<Rightarrow> Reference"
  and ParamsAndHash_evaluate :: "Frame \<Rightarrow> ParamsAndHash \<Rightarrow> Reference"
  where
  "ExpressionSyntax_evaluate frame (Value v) = ConstReference v"
| "ExpressionSyntax_evaluate frame (Get r) = Ref_evaluate frame r"
| "ExpressionSyntax_evaluate frame (Helper r args) =
     new_HelperInvocationReference (lookupHelper frame (Ref_path r))
       (ParamsAndHash_evaluate frame args)"
| "ExpressionSyntax_evaluate frame (Concat (Params es)) =
     new_ConcatReference (map (ExpressionSyntax_evaluate frame) es)"
| "ExpressionSyntax_evaluate frame (EvaluatedRef r) = r"
| "Params_evaluate frame (Params es) =
     new_EvaluatedParams (map (ExpressionSyntax_evaluate frame) es)"
| "Hash_evaluate frame (Hash ks vs) =
     new_EvaluatedHash (map (ExpressionSyntax_evaluate frame) vs) ks"
| "ParamsAndHash_evaluate frame (ParamsAndHash p h) =
     new_EvaluatedParamsAndHash (Params_evaluate frame p) (Hash_evaluate frame h)"

text \<open>\<^verbatim>\<open>EvaluatedParamsAndHash.empty()\<close> (lines 1099-1101) evaluates
  \<^verbatim>\<open>ParamsAndHash.empty()\<close> with a \<^verbatim>\<open>null\<close> frame and caches the result. The empty
  params and hash have no child to evaluate, so no frame is read: the result is the
  same under every frame (lemma \<open>EvaluatedParamsAndHash_empty_any_frame\<close>).\<close>

definition EvaluatedParamsAndHash_empty :: Reference where
  "EvaluatedParamsAndHash_empty =
     new_EvaluatedParamsAndHash (new_EvaluatedParams []) (new_EvaluatedHash [] [])"

text \<open>\<^verbatim>\<open>EvaluatedHash.at\<close> (lines 1281-1287): \<^verbatim>\<open>keys.some\<close> visits the keys with their
  indices in order and stops at the first callback that returns \<^verbatim>\<open>true\<close>, after it
  stored \<^verbatim>\<open>values[i]\<close>. \<open>None\<close> is \<^verbatim>\<open>null\<close> (no key matched) or \<^verbatim>\<open>undefined\<close> (the
  values array is shorter than the index).\<close>

fun EvaluatedHash_at_some ::
  "InternedString list \<Rightarrow> nat \<Rightarrow> Reference list \<Rightarrow> InternedString \<Rightarrow> Reference option" where
  "EvaluatedHash_at_some [] i refs key = None"
| "EvaluatedHash_at_some (k # ks) i refs key =
     (if k = key then nth_js refs i else EvaluatedHash_at_some ks (Suc i) refs key)"

fun EvaluatedHash_at :: "Reference \<Rightarrow> InternedString \<Rightarrow> Reference option" where
  "EvaluatedHash_at (EvaluatedHash srcs refs ks) key = EvaluatedHash_at_some ks 0 refs key"

text \<open>\<^verbatim>\<open>EvaluatedParams.nth\<close>, \<^verbatim>\<open>first\<close> and \<^verbatim>\<open>last\<close> (lines 1183-1193).\<close>

fun EvaluatedParams_nth :: "Reference \<Rightarrow> nat \<Rightarrow> Reference option" where
  "EvaluatedParams_nth (EvaluatedParams srcs refs) n = nth_js refs n"

fun EvaluatedParams_first :: "Reference \<Rightarrow> Reference option" where
  "EvaluatedParams_first (EvaluatedParams srcs refs) = nth_js refs 0"

fun EvaluatedParams_last :: "Reference \<Rightarrow> Reference option" where
  "EvaluatedParams_last (EvaluatedParams srcs refs) =
     (if refs = [] then None else nth_js refs (length refs - 1))"

subsection \<open>Pulling a value\<close>

text \<open>
  An environment gives what this file does not define: the current value of a reference
  of the reference library or the frame, the result of calling a helper with
  \<^verbatim>\<open>(params, hash, null)\<close>, and the string \<^verbatim>\<open>join('')\<close> makes of a value.
\<close>

record PullEnv =
  current :: "Reference \<Rightarrow> JsValue"
  call :: "JsValue \<Rightarrow> JsValue \<Rightarrow> JsValue \<Rightarrow> JsValue"
  toString :: "JsValue \<Rightarrow> string"

text \<open>\<^verbatim>\<open>hash[k] = v\<close> on an object: a key that is present keeps its place. The entries
  stay in insertion order; that a JavaScript object lists its integer-like keys first is
  not modelled, and an object is read by key only (\<open>property\<close>).\<close>

fun dict_set :: "(string \<times> 'a) list \<Rightarrow> string \<Rightarrow> 'a \<Rightarrow> (string \<times> 'a) list" where
  "dict_set [] k v = [(k, v)]"
| "dict_set ((k', v') # d) k v = (if k' = k then (k, v) # d else (k', v') # dict_set d k v)"

definition dict_of :: "string list \<Rightarrow> 'a list \<Rightarrow> (string \<times> 'a) list" where
  "dict_of ks vs = foldl (\<lambda>d (k, v). dict_set d k v) [] (zip ks vs)"

definition property :: "JsValue \<Rightarrow> string \<Rightarrow> error + JsValue" where
  "property obj name =
     (case obj of
        JsObject d \<Rightarrow> Inr (case map_of d name of None \<Rightarrow> JsLit LUndefined | Some v \<Rightarrow> v)
      | JsLit LUndefined \<Rightarrow> Inl (TypeError ''cannot read a property of undefined'')
      | JsLit LNull \<Rightarrow> Inl (TypeError ''cannot read a property of null'')
      | _ \<Rightarrow> Inr (JsLit LUndefined))"

text \<open>
  \<^verbatim>\<open>value()\<close> of each reference class of this file: \<^verbatim>\<open>HelperInvocationReference\<close>
  (lines 385-389), \<^verbatim>\<open>ConcatReference\<close> (lines 1029-1031), \<^verbatim>\<open>EvaluatedParams\<close>
  (lines 1195-1197), \<^verbatim>\<open>EvaluatedHash\<close> (lines 1289-1298) and
  \<^verbatim>\<open>EvaluatedParamsAndHash\<close> (lines 1112-1114). Each pull recomputes from the children.
  \<^verbatim>\<open>EvaluatedHash.value\<close> visits the keys and reads \<^verbatim>\<open>refs[i].value()\<close>: it pulls the
  first \<open>length keys\<close> references and raises when there are fewer.
  \<open>Reference_values n rs\<close> pulls the first \<open>n\<close> references of \<open>rs\<close> in order.
\<close>

fun Reference_value :: "PullEnv \<Rightarrow> Reference \<Rightarrow> error + JsValue"
  and Reference_values :: "PullEnv \<Rightarrow> nat \<Rightarrow> Reference list \<Rightarrow> error + JsValue list"
  where
  "Reference_value env (ConstReference v) = Inr (JsLit v)"
| "Reference_value env (OpaqueReference n) = Inr (current env (OpaqueReference n))"
| "Reference_value env (PathReference r s) = Inr (current env (PathReference r s))"
| "Reference_value env (HelperInvocationReference srcs helper args) =
     (case Reference_value env args of Inl e \<Rightarrow> Inl e
      | Inr a \<Rightarrow>
         (case property a ''params'' of Inl e \<Rightarrow> Inl e
          | Inr ps \<Rightarrow>
             (case property a ''hash'' of Inl e \<Rightarrow> Inl e
              | Inr h \<Rightarrow>
                 (case Reference_value env helper of Inl e \<Rightarrow> Inl e
                  | Inr f \<Rightarrow> Inr (call env f ps h)))))"
| "Reference_value env (ConcatReference srcs ps) =
     (case Reference_values env (length ps) ps of Inl e \<Rightarrow> Inl e
      | Inr vs \<Rightarrow> Inr (JsLit (LStr (concat (map (toString env) vs)))))"
| "Reference_value env (EvaluatedParams srcs refs) =
     (case Reference_values env (length refs) refs of Inl e \<Rightarrow> Inl e
      | Inr vs \<Rightarrow> Inr (JsArray vs))"
| "Reference_value env (EvaluatedHash srcs refs ks) =
     (case Reference_values env (length ks) refs of Inl e \<Rightarrow> Inl e
      | Inr vs \<Rightarrow>
         if length vs < length ks then Inl (TypeError ''refs[i] is undefined'')
         else Inr (JsObject (dict_of ks vs)))"
| "Reference_value env (EvaluatedParamsAndHash srcs paramsRef hashRef) =
     (case Reference_value env paramsRef of Inl e \<Rightarrow> Inl e
      | Inr ps \<Rightarrow>
         (case Reference_value env hashRef of Inl e \<Rightarrow> Inl e
          | Inr h \<Rightarrow> Inr (JsObject [(''params'', ps), (''hash'', h)])))"
| "Reference_values env 0 rs = Inr []"
| "Reference_values env (Suc n) [] = Inr []"
| "Reference_values env (Suc n) (r # rs) =
     (case Reference_value env r of Inl e \<Rightarrow> Inl e
      | Inr v \<Rightarrow> (case Reference_values env n rs of Inl e \<Rightarrow> Inl e | Inr vs \<Rightarrow> Inr (v # vs)))"

subsection \<open>The \<^verbatim>\<open>Templates\<close> pairing\<close>

text \<open>\<^verbatim>\<open>Templates.fromSpec\<close> (lines 1302-1307): an id that is not \<^verbatim>\<open>null\<close> indexes the
  array of the templates decoded so far.\<close>

definition Templates_fromSpec :: "nat option \<Rightarrow> nat option \<Rightarrow> Template list \<Rightarrow> Templates" where
  "Templates_fromSpec templateId inverseId children =
     Templates (case templateId of None \<Rightarrow> None | Some i \<Rightarrow> nth_js children i)
               (case inverseId of None \<Rightarrow> None | Some i \<Rightarrow> nth_js children i)"

definition Templates_build :: "Template option \<Rightarrow> Template option \<Rightarrow> Templates" where
  "Templates_build template inverseTemplate = Templates template inverseTemplate"

text \<open>\<^verbatim>\<open>Templates.evaluate\<close> (lines 1331-1333): the body is a single \<^verbatim>\<open>throw\<close>.\<close>

definition Templates_evaluate :: "Templates \<Rightarrow> Frame \<Rightarrow> error + Reference" where
  "Templates_evaluate t frame = Inl (Error ''unimplemented evaluate for ExpressionSyntax'')"

subsection \<open>Decoding and building statements\<close>

text \<open>\<^verbatim>\<open>fromSpec\<close> and \<^verbatim>\<open>build\<close> of each statement class, in the order of the source.
  \<^verbatim>\<open>Block.build(options)\<close> takes the three fields of its options object.\<close>

definition Block_fromSpec ::
  "PathSexp \<Rightarrow> ParamsSexp \<Rightarrow> HashSexp \<Rightarrow> nat option \<Rightarrow> nat option \<Rightarrow> Template list
    \<Rightarrow> error + StatementSyntax" where
  "Block_fromSpec path ps raw templateId inverseId children =
     (case ParamsAndHash_fromSpec ps raw of Inl e \<Rightarrow> Inl e
      | Inr args \<Rightarrow> Inr (Block path args (Templates_fromSpec templateId inverseId children)))"

definition Block_build ::
  "InternedString list \<Rightarrow> ParamsAndHash \<Rightarrow> Templates \<Rightarrow> StatementSyntax" where
  "Block_build path args templates = Block path args templates"

definition Unknown_fromSpec :: "PathSexp \<Rightarrow> bool \<Rightarrow> StatementSyntax" where
  "Unknown_fromSpec path unsafe = Unknown (Ref path) unsafe"

definition Unknown_build :: "string \<Rightarrow> bool \<Rightarrow> StatementSyntax" where
  "Unknown_build path unsafe = Unknown (Ref_build path) unsafe"

definition Inline_fromSpec ::
  "PathSexp \<Rightarrow> ParamsSexp \<Rightarrow> HashSexp \<Rightarrow> bool \<Rightarrow> error + StatementSyntax" where
  "Inline_fromSpec path ps raw trust =
     (case ParamsAndHash_fromSpec ps raw of Inl e \<Rightarrow> Inl e
      | Inr args \<Rightarrow> Inr (Inline path trust args))"

definition Inline_build :: "string \<Rightarrow> ParamsAndHash \<Rightarrow> bool \<Rightarrow> StatementSyntax" where
  "Inline_build path0 args trust = (let path = internPath path0 in Inline path trust args)"

definition DynamicProp_fromSpec ::
  "InternedString \<Rightarrow> ExpressionSexp \<Rightarrow> InternedString option \<Rightarrow> error + StatementSyntax" where
  "DynamicProp_fromSpec name v namespace =
     (case buildExpression v of Inl e \<Rightarrow> Inl e | Inr x \<Rightarrow> Inr (DynamicProp name x))"

definition DynamicProp_build :: "InternedString \<Rightarrow> ExpressionSyntax \<Rightarrow> StatementSyntax" where
  "DynamicProp_build name v = DynamicProp name v"

definition DynamicAttr_fromSpec ::
  "InternedString \<Rightarrow> ExpressionSexp \<Rightarrow> InternedString option \<Rightarrow> error + StatementSyntax" where
  "DynamicAttr_fromSpec name v namespace =
     (case buildExpression v of Inl e \<Rightarrow> Inl e
      | Inr x \<Rightarrow> Inr (DynamicAttr (Some name) x namespace))"

text \<open>\<^verbatim>\<open>DynamicAttr.build\<close> (lines 491-495):
  \<^verbatim>\<open>namespace = _namespace ? intern(_namespace) : null\<close>.\<close>

definition DynamicAttr_build ::
  "string option \<Rightarrow> ExpressionSyntax \<Rightarrow> string option \<Rightarrow> StatementSyntax" where
  "DynamicAttr_build name0 v namespace0 =
     (let name = intern name0;
          namespace = (if truthy namespace0 then intern namespace0 else None)
      in DynamicAttr name v namespace)"

definition Component_fromSpec ::
  "InternedString \<Rightarrow> HashSexp \<Rightarrow> nat option \<Rightarrow> nat option \<Rightarrow> Template list
    \<Rightarrow> error + StatementSyntax" where
  "Component_fromSpec path attrs templateId inverseId children =
     (case Hash_fromSpec attrs of Inl e \<Rightarrow> Inl e
      | Inr h \<Rightarrow>
          Inr (Component (Ref [path]) (Some h) (Templates_fromSpec templateId inverseId children)))"

text \<open>\<^verbatim>\<open>Component.build\<close> (lines 546-552): the options are \<^verbatim>\<open>default\<close>, \<^verbatim>\<open>inverse\<close> and
  \<^verbatim>\<open>hash\<close>; \<^verbatim>\<open>options.hash || null\<close> keeps a hash and turns \<^verbatim>\<open>undefined\<close> into
  \<^verbatim>\<open>null\<close>.\<close>

definition Component_build ::
  "string \<Rightarrow> Template option \<Rightarrow> Template option \<Rightarrow> Hash option \<Rightarrow> StatementSyntax" where
  "Component_build path defaultTemplate inverseTemplate h =
     Component (Ref_build path) h (Templates_build defaultTemplate inverseTemplate)"

definition Text_fromSpec :: "string \<Rightarrow> StatementSyntax" where
  "Text_fromSpec content = Text content"

definition Text_build :: "string \<Rightarrow> StatementSyntax" where
  "Text_build content = Text content"

definition Comment_fromSpec :: "string \<Rightarrow> StatementSyntax" where
  "Comment_fromSpec v = Comment v"

definition Comment_build :: "string \<Rightarrow> StatementSyntax" where
  "Comment_build v = Comment v"

definition OpenElement_fromSpec :: "string \<Rightarrow> StatementSyntax" where
  "OpenElement_fromSpec tag = OpenElement tag"

definition OpenElement_build :: "string \<Rightarrow> StatementSyntax" where
  "OpenElement_build tag = OpenElement tag"

definition CloseElement_fromSpec :: StatementSyntax where
  "CloseElement_fromSpec = CloseElement"

definition CloseElement_build :: StatementSyntax where
  "CloseElement_build = CloseElement"

text \<open>\<^verbatim>\<open>StaticAttr\<close> (lines 752-760). The value is a string on the wire; \<^verbatim>\<open>build\<close> also
  receives the value \<^verbatim>\<open>FallbackMorph.init\<close> pulled. \<^verbatim>\<open>namespace && intern(namespace)\<close>
  keeps \<^verbatim>\<open>null\<close> and the empty string.\<close>

definition StaticAttr_fromSpec ::
  "InternedString \<Rightarrow> InternedString \<Rightarrow> InternedString option \<Rightarrow> StatementSyntax" where
  "StaticAttr_fromSpec name v namespace = StaticAttr (Some name) (JsLit (LStr v)) namespace"

definition StaticAttr_build ::
  "string option \<Rightarrow> JsValue \<Rightarrow> string option \<Rightarrow> StatementSyntax" where
  "StaticAttr_build name v namespace =
     StaticAttr (intern name) (intern v) (map_option intern namespace)"

text \<open>\<^verbatim>\<open>StatementNodes[statement[0]].fromSpec(statement, list)\<close>: the dispatch on the tag
  (lines 799-815 and 1042). A tag that is no key of \<^verbatim>\<open>StatementNodes\<close> has no
  \<^verbatim>\<open>fromSpec\<close> to call, a \<^verbatim>\<open>TypeError\<close>.\<close>

fun StatementNodes_fromSpec :: "StatementSexp \<Rightarrow> Template list \<Rightarrow> error + StatementSyntax" where
  "StatementNodes_fromSpec (BlockSexp path ps raw templateId inverseId) children =
     Block_fromSpec path ps raw templateId inverseId children"
| "StatementNodes_fromSpec (InlineSexp path ps raw trust) children =
     Inline_fromSpec path ps raw trust"
| "StatementNodes_fromSpec (UnknownSexp path unsafe) children = Inr (Unknown_fromSpec path unsafe)"
| "StatementNodes_fromSpec (DynamicAttrSexp name v namespace) children =
     DynamicAttr_fromSpec name v namespace"
| "StatementNodes_fromSpec (DynamicPropSexp name v namespace) children =
     DynamicProp_fromSpec name v namespace"
| "StatementNodes_fromSpec (ComponentSexp path attrs templateId inverseId) children =
     Component_fromSpec path attrs templateId inverseId children"
| "StatementNodes_fromSpec (TextSexp content) children = Inr (Text_fromSpec content)"
| "StatementNodes_fromSpec (CommentSexp v) children = Inr (Comment_fromSpec v)"
| "StatementNodes_fromSpec (OpenElementSexp tag) children = Inr (OpenElement_fromSpec tag)"
| "StatementNodes_fromSpec CloseElementSexp children = Inr CloseElement_fromSpec"
| "StatementNodes_fromSpec (StaticAttrSexp name v namespace) children =
     Inr (StaticAttr_fromSpec name v namespace)"
| "StatementNodes_fromSpec (OtherSexp t) children =
     Inl (TypeError ''StatementNodes[statement[0]] has no fromSpec'')"

definition BOUNDARY_CANDIDATES :: "string list" where
  "BOUNDARY_CANDIDATES = [''block'', ''inline'', ''unknown'', ''component'']"

text \<open>\<^verbatim>\<open>statements.map(...)\<close> of \<^verbatim>\<open>buildStatements\<close>: the first tuple that fails to decode
  ends the whole call.\<close>

fun map_fromSpec :: "StatementSexp list \<Rightarrow> Template list \<Rightarrow> error + Statement list" where
  "map_fromSpec [] children = Inr []"
| "map_fromSpec (s # ss) children =
     (case StatementNodes_fromSpec s children of Inl e \<Rightarrow> Inl e
      | Inr x \<Rightarrow>
         (case map_fromSpec ss children of Inl e \<Rightarrow> Inl e
          | Inr xs \<Rightarrow> Inr (Statement x False False # xs)))"

text \<open>
  \<^verbatim>\<open>buildStatements\<close> (lines 1040-1053). The two tests read the tag of the wire tuple,
  \<^verbatim>\<open>statements[0][0]\<close> and \<^verbatim>\<open>statements[statements.length - 1][0]\<close>; they run after
  \<^verbatim>\<open>map\<close>, so only with tags that are keys of \<^verbatim>\<open>StatementNodes\<close>. A fresh statement
  object has neither boundary property.
\<close>

definition buildStatements :: "StatementSexp list \<Rightarrow> Template list \<Rightarrow> error + Statement list" where
  "buildStatements sexps children =
     (if length sexps = 0 then Inr []
      else
        (case map_fromSpec sexps children of Inl e \<Rightarrow> Inl e
         | Inr built \<Rightarrow>
            (let built1 =
                   (if statement_tag (sexps ! 0) \<in> set BOUNDARY_CANDIDATES
                    then built[0 := Statement (stmt (built ! 0)) True (backBoundary (built ! 0))]
                    else built);
                 n = length built1 - 1;
                 built2 =
                   (if statement_tag (sexps ! (length sexps - 1)) \<in> set BOUNDARY_CANDIDATES
                    then built1[n := Statement (stmt (built1 ! n)) (frontBoundary (built1 ! n)) True]
                    else built1)
             in Inr built2)))"

subsection \<open>Templates\<close>

text \<open>The constructor of \<^verbatim>\<open>Template\<close> (lines 102-112), with the defaults of each field.\<close>

definition new_Template ::
  "(string \<times> lit) list option \<Rightarrow> nat option \<Rightarrow> nat option \<Rightarrow> InternedString list option
    \<Rightarrow> Statement list option \<Rightarrow> TemplateSpec option \<Rightarrow> bool option \<Rightarrow> Template" where
  "new_Template m r pos ls sts sp e =
     Template (case m of None \<Rightarrow> [] | Some x \<Rightarrow> x) r pos
       (case ls of None \<Rightarrow> 0 | Some l \<Rightarrow> length l)
       (case sts of None \<Rightarrow> [] | Some x \<Rightarrow> x)
       (case ls of None \<Rightarrow> [] | Some l \<Rightarrow> l)
       sp
       (case e of None \<Rightarrow> False | Some b \<Rightarrow> b)"

text \<open>
  \<^verbatim>\<open>Template.fromSpec\<close> (lines 61-79). The array \<^verbatim>\<open>templates\<close> is allocated at an address
  \<open>a\<close> and filled from the front; while the template at index \<open>i\<close> is decoded it holds
  the \<open>i\<close> templates decoded before, and every later slot reads \<^verbatim>\<open>undefined\<close>. Every
  template gets the address of the array as its root. The result is the heap with the
  finished array at \<open>a\<close>, and the last template (\<^verbatim>\<open>undefined\<close> when there is none).
\<close>

type_synonym Heap = "nat \<Rightarrow> Template list"

fun Template_fromSpec_loop ::
  "nat \<Rightarrow> TemplateSpec list \<Rightarrow> Template list \<Rightarrow> error + Template list" where
  "Template_fromSpec_loop a [] templates = Inr templates"
| "Template_fromSpec_loop a (sp # specs) templates =
     (case buildStatements (spec_statements sp) templates of Inl e \<Rightarrow> Inl e
      | Inr sts \<Rightarrow>
          Template_fromSpec_loop a specs
            (templates @
               [new_Template (spec_meta sp) (Some a) (Some (length templates)) (spec_locals sp)
                  (Some sts) (Some sp) (Some (length (spec_statements sp) = 0))]))"

definition Template_fromSpec ::
  "nat \<Rightarrow> Heap \<Rightarrow> TemplateSpec list \<Rightarrow> error + Heap \<times> Template option" where
  "Template_fromSpec a heap specs =
     (case Template_fromSpec_loop a specs [] of Inl e \<Rightarrow> Inl e
      | Inr templates \<Rightarrow>
          Inr (heap(a := templates), if templates = [] then None else Some (last templates)))"

text \<open>\<^verbatim>\<open>Template.fromStatements\<close> (lines 81-91): the statements are stored as they are
  given.\<close>

definition Template_fromStatements :: "Statement list \<Rightarrow> Template" where
  "Template_fromStatements sts =
     new_Template None None None None (Some sts) None (Some (length sts = 0))"

text \<open>\<^verbatim>\<open>clone\<close> (lines 114-118).\<close>

definition Template_clone :: "Template \<Rightarrow> Template" where
  "Template_clone t =
     new_Template (Some (meta t)) (root t) (position t) (Some (locals t)) (Some (statements t))
       (spec t) (Some (isEmpty t))"

subsection \<open>The builder\<close>

text \<open>
  Modelled from the spec: \<^verbatim>\<open>ElementStack\<close> comes from \<^verbatim>\<open>./builder\<close> and the morph
  classes from \<^verbatim>\<open>./morph\<close> and \<^verbatim>\<open>./morphs/*\<close>, none of them among the sources. The
  builder is the log of the calls made to it and the list of the render nodes it created
  (\<^verbatim>\<open>morphList()\<close>); a render node is its class and the options it was created with.
  \<^verbatim>\<open>openElement\<close> returns the element it opened, numbered by its place in the log; the
  tag it is given is \<open>None\<close> when \<^verbatim>\<open>FallbackMorph\<close> read it from an empty path.
  \<^verbatim>\<open>appendStatement(statement, frame)\<close> applies the statement's \<^verbatim>\<open>evaluate\<close> to the
  builder.
\<close>

datatype Node = Node nat

datatype MorphKind =
    BlockHelperMorph | InsertionMorph | HelperMorph | SetPropertyMorph | AttrMorph
  | ComponentMorph | FallbackMorphClass | SimpleTemplateMorph

datatype MorphOptions =
    BlockHelperOptions Reference Reference Templates
  | ContentOptions Reference bool
  | SetPropertyOptions InternedString ExpressionSyntax
  | AttrOptions "InternedString option" Reference "InternedString option"
  | ComponentOptions ComponentDefinition "Hash option" "Template option"
  | FallbackOptions "InternedString list" "Hash option" "Template option"
  | SimpleTemplateOptions "Template option"

datatype Morph = Morph MorphKind MorphOptions

datatype BuilderCall =
    OpenElementCall "string option"
  | CloseElementCall
  | AppendTextCall string
  | AppendCommentCall string
  | SetAttributeCall "InternedString option" JsValue
  | SetAttributeNSCall "InternedString option" JsValue "InternedString option"
  | CreateMorphCall MorphKind MorphOptions
  | CreateContentMorphCall MorphKind MorphOptions
  | AppendMorphCall Morph
  | ForeignEvaluateCall string

datatype Handler = Handler nat

record ElementStack =
  parentNode :: Node
  nextSibling :: "Node option"
  topLevelHandlers :: "Handler list"
  calls :: "BuilderCall list"
  morphList :: "Morph list"

definition new_ElementStack :: "Node \<Rightarrow> Node option \<Rightarrow> ElementStack" where
  "new_ElementStack parent sibling =
     \<lparr>parentNode = parent, nextSibling = sibling, topLevelHandlers = [], calls = [], morphList = []\<rparr>"

definition addTopLevelHandler :: "ElementStack \<Rightarrow> Handler \<Rightarrow> ElementStack" where
  "addTopLevelHandler stack h = stack\<lparr>topLevelHandlers := topLevelHandlers stack @ [h]\<rparr>"

definition record_call :: "ElementStack \<Rightarrow> BuilderCall \<Rightarrow> ElementStack" where
  "record_call stack c = stack\<lparr>calls := calls stack @ [c]\<rparr>"

definition openElement :: "ElementStack \<Rightarrow> string option \<Rightarrow> ElementStack \<times> Node" where
  "openElement stack tag = (record_call stack (OpenElementCall tag), Node (length (calls stack)))"

definition closeElement :: "ElementStack \<Rightarrow> ElementStack" where
  "closeElement stack = record_call stack CloseElementCall"

definition appendText :: "ElementStack \<Rightarrow> string \<Rightarrow> ElementStack" where
  "appendText stack content = record_call stack (AppendTextCall content)"

definition appendComment :: "ElementStack \<Rightarrow> string \<Rightarrow> ElementStack" where
  "appendComment stack v = record_call stack (AppendCommentCall v)"

definition setAttribute :: "ElementStack \<Rightarrow> InternedString option \<Rightarrow> JsValue \<Rightarrow> ElementStack" where
  "setAttribute stack name v = record_call stack (SetAttributeCall name v)"

definition setAttributeNS ::
  "ElementStack \<Rightarrow> InternedString option \<Rightarrow> JsValue \<Rightarrow> InternedString option \<Rightarrow> ElementStack" where
  "setAttributeNS stack name v namespace = record_call stack (SetAttributeNSCall name v namespace)"

definition createMorph :: "ElementStack \<Rightarrow> MorphKind \<Rightarrow> MorphOptions \<Rightarrow> ElementStack \<times> Morph" where
  "createMorph stack kind options =
     ((record_call stack (CreateMorphCall kind options))
        \<lparr>morphList := morphList stack @ [Morph kind options]\<rparr>,
      Morph kind options)"

definition createContentMorph ::
  "ElementStack \<Rightarrow> MorphKind \<Rightarrow> MorphOptions \<Rightarrow> ElementStack \<times> Morph" where
  "createContentMorph stack kind options =
     ((record_call stack (CreateContentMorphCall kind options))
        \<lparr>morphList := morphList stack @ [Morph kind options]\<rparr>,
      Morph kind options)"

subsection \<open>Evaluating statements\<close>

text \<open>
  \<^verbatim>\<open>evaluate(stack, frame)\<close> of each statement class: the builder after the call, and the
  render node the call returned, if any. The frame itself is not part of the options of a
  render node. What a foreign statement does to the builder is its own; the
  log only keeps that it was called.
\<close>

text \<open>\<^verbatim>\<open>Block.evaluate\<close> (lines 272-278).\<close>

definition Block_evaluate ::
  "InternedString list \<Rightarrow> ParamsAndHash \<Rightarrow> Templates \<Rightarrow> ElementStack \<Rightarrow> Frame
    \<Rightarrow> ElementStack \<times> Morph" where
  "Block_evaluate path args templates stack frame =
     (let helper = lookupHelper frame path;
          evaluatedArgs = ParamsAndHash_evaluate frame args
      in createContentMorph stack BlockHelperMorph (BlockHelperOptions helper evaluatedArgs templates))"

text \<open>\<^verbatim>\<open>Unknown.evaluate\<close> (lines 311-324).\<close>

definition Unknown_evaluate :: "Ref \<Rightarrow> bool \<Rightarrow> ElementStack \<Rightarrow> Frame \<Rightarrow> ElementStack \<times> Morph" where
  "Unknown_evaluate ref trustingMorph stack frame =
     (let content =
            (if Ref_isHelper frame ref
             then (let path = lookupHelper frame (Ref_path ref)
                   in new_HelperInvocationReference path EvaluatedParamsAndHash_empty)
             else Ref_evaluate frame ref)
      in createContentMorph stack InsertionMorph (ContentOptions content trustingMorph))"

text \<open>\<^verbatim>\<open>Inline.evaluate\<close> (lines 366-372).\<close>

definition Inline_evaluate ::
  "InternedString list \<Rightarrow> bool \<Rightarrow> ParamsAndHash \<Rightarrow> ElementStack \<Rightarrow> Frame
    \<Rightarrow> ElementStack \<times> Morph" where
  "Inline_evaluate path trustingMorph args stack frame =
     (let helper = lookupHelper frame path;
          content = new_HelperInvocationReference helper (ParamsAndHash_evaluate frame args)
      in createContentMorph stack HelperMorph (ContentOptions content trustingMorph))"

text \<open>\<^verbatim>\<open>DynamicProp.evaluate\<close> (lines 470-473) hands the value expression over as it is.\<close>

definition DynamicProp_evaluate ::
  "InternedString \<Rightarrow> ExpressionSyntax \<Rightarrow> ElementStack \<Rightarrow> Frame \<Rightarrow> ElementStack \<times> Morph" where
  "DynamicProp_evaluate name v stack frame =
     createMorph stack SetPropertyMorph (SetPropertyOptions name v)"

text \<open>\<^verbatim>\<open>DynamicAttr.evaluate\<close> (lines 524-528).\<close>

definition DynamicAttr_evaluate ::
  "InternedString option \<Rightarrow> ExpressionSyntax \<Rightarrow> InternedString option \<Rightarrow> ElementStack \<Rightarrow> Frame
    \<Rightarrow> ElementStack \<times> Morph" where
  "DynamicAttr_evaluate name v0 namespace stack frame =
     (let v = ExpressionSyntax_evaluate frame v0
      in createMorph stack AttrMorph (AttrOptions name v namespace))"

text \<open>
  \<^verbatim>\<open>Component.evaluate\<close> (lines 570-587). With a helper and no definition the hash is
  evaluated; a \<^verbatim>\<open>null\<close> hash has no \<^verbatim>\<open>evaluate\<close>, a \<^verbatim>\<open>TypeError\<close> in the constructor of
  \<^verbatim>\<open>EvaluatedParamsAndHash\<close>.
\<close>

definition Component_evaluate ::
  "Ref \<Rightarrow> Hash option \<Rightarrow> Templates \<Rightarrow> ElementStack \<Rightarrow> Frame \<Rightarrow> error + ElementStack \<times> Morph" where
  "Component_evaluate ref h templates stack frame =
     (let path = Ref_path ref;
          definition = getComponentDefinition frame path (Component ref h templates)
      in case definition of
           Some d \<Rightarrow>
             Inr (createContentMorph stack ComponentMorph
                    (ComponentOptions d h (Templates_default templates)))
         | None \<Rightarrow>
             if hasHelper frame path then
               (let helper = lookupHelper frame path
                in case h of
                     None \<Rightarrow> Inl (TypeError ''hash is null'')
                   | Some h' \<Rightarrow>
                       (let args = ParamsAndHash_evaluate frame (ParamsAndHash Params_empty h')
                        in Inr (createContentMorph stack BlockHelperMorph
                                  (BlockHelperOptions helper args templates))))
             else
               Inr (createContentMorph stack FallbackMorphClass
                      (FallbackOptions path h (Templates_default templates))))"

text \<open>\<^verbatim>\<open>StaticAttr.evaluate\<close> (lines 787-795).\<close>

definition StaticAttr_evaluate ::
  "InternedString option \<Rightarrow> JsValue \<Rightarrow> InternedString option \<Rightarrow> ElementStack \<Rightarrow> ElementStack" where
  "StaticAttr_evaluate name v namespace stack =
     (if truthy namespace then setAttributeNS stack name v namespace
      else setAttribute stack name v)"

text \<open>\<^verbatim>\<open>asEvaluated\<close> of the attribute classes (lines 464-468, 518-522, 783-785): the value
  expression is replaced by the reference it evaluates to.\<close>

definition DynamicProp_asEvaluated ::
  "InternedString \<Rightarrow> ExpressionSyntax \<Rightarrow> Frame \<Rightarrow> StatementSyntax" where
  "DynamicProp_asEvaluated name v0 frame =
     (let v = EvaluatedRef (ExpressionSyntax_evaluate frame v0) in DynamicProp name v)"

definition DynamicAttr_asEvaluated ::
  "InternedString option \<Rightarrow> ExpressionSyntax \<Rightarrow> InternedString option \<Rightarrow> Frame
    \<Rightarrow> StatementSyntax" where
  "DynamicAttr_asEvaluated name v0 namespace frame =
     (let v = EvaluatedRef (ExpressionSyntax_evaluate frame v0) in DynamicAttr name v namespace)"

definition StaticAttr_asEvaluated ::
  "InternedString option \<Rightarrow> JsValue \<Rightarrow> InternedString option \<Rightarrow> StatementSyntax" where
  "StaticAttr_asEvaluated name v namespace = StaticAttr name v namespace"

fun StatementSyntax_evaluate ::
  "StatementSyntax \<Rightarrow> ElementStack \<Rightarrow> Frame \<Rightarrow> error + ElementStack \<times> Morph option" where
  "StatementSyntax_evaluate (Block path args templates) stack frame =
     Inr (map_prod id Some (Block_evaluate path args templates stack frame))"
| "StatementSyntax_evaluate (Unknown ref trustingMorph) stack frame =
     Inr (map_prod id Some (Unknown_evaluate ref trustingMorph stack frame))"
| "StatementSyntax_evaluate (Inline path trustingMorph args) stack frame =
     Inr (map_prod id Some (Inline_evaluate path trustingMorph args stack frame))"
| "StatementSyntax_evaluate (DynamicProp name v) stack frame =
     Inr (map_prod id Some (DynamicProp_evaluate name v stack frame))"
| "StatementSyntax_evaluate (DynamicAttr name v namespace) stack frame =
     Inr (map_prod id Some (DynamicAttr_evaluate name v namespace stack frame))"
| "StatementSyntax_evaluate (Component ref h templates) stack frame =
     (case Component_evaluate ref h templates stack frame of Inl e \<Rightarrow> Inl e
      | Inr r \<Rightarrow> Inr (map_prod id Some r))"
| "StatementSyntax_evaluate (Text content) stack frame = Inr (appendText stack content, None)"
| "StatementSyntax_evaluate (Comment v) stack frame = Inr (appendComment stack v, None)"
| "StatementSyntax_evaluate (OpenElement tag) stack frame =
     Inr (fst (openElement stack (Some tag)), None)"
| "StatementSyntax_evaluate CloseElement stack frame = Inr (closeElement stack, None)"
| "StatementSyntax_evaluate (StaticAttr name v namespace) stack frame =
     Inr (StaticAttr_evaluate name v namespace stack, None)"
| "StatementSyntax_evaluate (ForeignStatement cls t b pp) stack frame =
     Inr (record_call stack (ForeignEvaluateCall cls), None)"

definition appendStatement :: "ElementStack \<Rightarrow> StatementSyntax \<Rightarrow> Frame \<Rightarrow> error + ElementStack" where
  "appendStatement stack s frame =
     (case StatementSyntax_evaluate s stack frame of Inl e \<Rightarrow> Inl e | Inr r \<Rightarrow> Inr (fst r))"

subsection \<open>Evaluating a template\<close>

datatype Bounds = Bounds Node

definition bounds :: "ElementStack \<Rightarrow> Bounds" where
  "bounds stack = Bounds (parentNode stack)"

record RenderResult =
  result_morphs :: "Morph list"
  result_scope :: Scope
  result_bounds :: Bounds
  result_template :: Template

text \<open>\<^verbatim>\<open>this.statements.forEach(statement => stack.appendStatement(statement, frame))\<close>.\<close>

fun appendStatements :: "ElementStack \<Rightarrow> Statement list \<Rightarrow> Frame \<Rightarrow> error + ElementStack" where
  "appendStatements stack [] frame = Inr stack"
| "appendStatements stack (s # ss) frame =
     (case appendStatement stack (stmt s) frame of Inl e \<Rightarrow> Inl e
      | Inr stack' \<Rightarrow> appendStatements stack' ss frame)"

text \<open>\<^verbatim>\<open>evaluateWithStack\<close> (lines 131-139).\<close>

definition Template_evaluateWithStack ::
  "Template \<Rightarrow> ElementStack \<Rightarrow> Frame \<Rightarrow> error + ElementStack \<times> RenderResult" where
  "Template_evaluateWithStack t stack frame =
     (case appendStatements stack (statements t) frame of Inl e \<Rightarrow> Inl e
      | Inr stack' \<Rightarrow>
          Inr (stack',
               \<lparr>result_morphs = morphList stack', result_scope = scope frame,
                result_bounds = bounds stack', result_template = t\<rparr>))"

text \<open>\<^verbatim>\<open>evaluate\<close> (lines 141-151): the content morph gives the parent node and the frame,
  the options (which may be \<^verbatim>\<open>null\<close>) the next sibling and the handler.\<close>

record ContentMorph =
  morph_parentNode :: Node
  morph_frame :: Frame

record EvaluateOptions =
  option_nextSibling :: "Node option"
  option_handler :: "Handler option"

definition Template_evaluate ::
  "Template \<Rightarrow> ContentMorph \<Rightarrow> EvaluateOptions option \<Rightarrow> error + ElementStack \<times> RenderResult" where
  "Template_evaluate t morph options =
     (let sibling = (case options of None \<Rightarrow> None | Some opts \<Rightarrow> option_nextSibling opts);
          handler = (case options of None \<Rightarrow> None | Some opts \<Rightarrow> option_handler opts);
          frame = morph_frame morph;
          stack0 = new_ElementStack (morph_parentNode morph) sibling;
          stack = (case handler of None \<Rightarrow> stack0 | Some h \<Rightarrow> addTopLevelHandler stack0 h)
      in Template_evaluateWithStack t stack (morph_frame morph))"

subsection \<open>The fallback render node\<close>

text \<open>
  \<^verbatim>\<open>FallbackMorph\<close> (lines 591-632). The frame of the node is set by the constructor of
  its base class. \<^verbatim>\<open>init\<close> reads \<^verbatim>\<open>path[0]\<close> and walks \<^verbatim>\<open>hash.values\<close> with their
  indices, reading \<^verbatim>\<open>keys[i]\<close>; destructuring a \<^verbatim>\<open>null\<close> hash is a \<^verbatim>\<open>TypeError\<close>.
\<close>

record FallbackMorph =
  fallback_tag :: "InternedString option"
  fallback_template :: "Template option"
  fallback_element :: "Node option"
  fallback_attrs :: "StatementSyntax list"
  fallback_frame :: Frame

fun FallbackMorph_init_forEach ::
  "PullEnv \<Rightarrow> Frame \<Rightarrow> InternedString list \<Rightarrow> ExpressionSyntax list \<Rightarrow> nat
    \<Rightarrow> error + StatementSyntax list" where
  "FallbackMorph_init_forEach env frame ks [] i = Inr []"
| "FallbackMorph_init_forEach env frame ks (val # rest) i =
     (let key = nth_js ks i
      in case (if ExpressionSyntax_isStatic val
               then (case Reference_value env (ExpressionSyntax_evaluate frame val) of
                       Inl e \<Rightarrow> Inl e
                     | Inr v \<Rightarrow> Inr (StaticAttr_build key v None))
               else Inr (DynamicAttr_build key val None))
         of Inl e \<Rightarrow> Inl e
          | Inr attr \<Rightarrow>
              (case FallbackMorph_init_forEach env frame ks rest (Suc i) of Inl e \<Rightarrow> Inl e
               | Inr attrs \<Rightarrow> Inr (attr # attrs)))"

definition FallbackMorph_init ::
  "PullEnv \<Rightarrow> Frame \<Rightarrow> InternedString list \<Rightarrow> Hash option \<Rightarrow> Template option
    \<Rightarrow> error + FallbackMorph" where
  "FallbackMorph_init env frame path h template =
     (case h of
        None \<Rightarrow> Inl (TypeError ''cannot destructure keys of null'')
      | Some h' \<Rightarrow>
          (case FallbackMorph_init_forEach env frame (keys h') (vals h') 0 of Inl e \<Rightarrow> Inl e
           | Inr attrs \<Rightarrow>
               Inr \<lparr>fallback_tag = nth_js path 0, fallback_template = template,
                    fallback_element = None, fallback_attrs = attrs, fallback_frame = frame\<rparr>))"

text \<open>\<^verbatim>\<open>attrs.forEach(attr => stack.appendStatement(attr, this.frame))\<close>.\<close>

fun appendAttrs :: "ElementStack \<Rightarrow> StatementSyntax list \<Rightarrow> Frame \<Rightarrow> error + ElementStack" where
  "appendAttrs stack [] frame = Inr stack"
| "appendAttrs stack (attr # attrs) frame =
     (case appendStatement stack attr frame of Inl e \<Rightarrow> Inl e
      | Inr stack' \<Rightarrow> appendAttrs stack' attrs frame)"

text \<open>\<^verbatim>\<open>append\<close> (lines 622-629): it stores the element and leaves the attributes as
  \<^verbatim>\<open>init\<close> made them. Reading \<^verbatim>\<open>isEmpty\<close> of a \<^verbatim>\<open>null\<close> template is a \<^verbatim>\<open>TypeError\<close>.\<close>

definition FallbackMorph_append ::
  "FallbackMorph \<Rightarrow> ElementStack \<Rightarrow> error + FallbackMorph \<times> ElementStack" where
  "FallbackMorph_append m stack =
     (let (stack1, element) = openElement stack (fallback_tag m);
          m1 = m\<lparr>fallback_element := Some element\<rparr>
      in case appendAttrs stack1 (fallback_attrs m) (fallback_frame m) of Inl e \<Rightarrow> Inl e
         | Inr stack2 \<Rightarrow>
            (case fallback_template m of
               None \<Rightarrow> Inl (TypeError ''cannot read isEmpty of null'')
             | Some template \<Rightarrow>
                 (let stack3 =
                        (if \<not> isEmpty template
                         then (let (stack', morph) =
                                     createContentMorph stack2 SimpleTemplateMorph
                                       (SimpleTemplateOptions (Some template))
                               in record_call stack' (AppendMorphCall morph))
                         else stack2)
                  in Inr (m1, closeElement stack3))))"

text \<open>\<^verbatim>\<open>update() {}\<close> (line 631).\<close>

definition FallbackMorph_update :: "FallbackMorph \<Rightarrow> FallbackMorph" where
  "FallbackMorph_update m = m"

definition FallbackMorph_firstNode :: "FallbackMorph \<Rightarrow> Node option" where
  "FallbackMorph_firstNode m = fallback_element m"

definition FallbackMorph_lastNode :: "FallbackMorph \<Rightarrow> Node option" where
  "FallbackMorph_lastNode m = fallback_element m"

subsection \<open>Pretty printing\<close>

text \<open>
  \<^verbatim>\<open>prettyPrint\<close> of the expression classes. \<^verbatim>\<open>Hash.prettyPrint\<close> (lines 1245-1251)
  visits the keys and reads \<^verbatim>\<open>this.values[i].prettyPrint()\<close>, a \<^verbatim>\<open>TypeError\<close> when the
  values are fewer than the keys.
\<close>

definition Ref_prettyPrint :: "Ref \<Rightarrow> PrettyPrintValue" where
  "Ref_prettyPrint r = PPValue (JsLit (LStr (join_dot (parts r))))"

fun ExpressionSyntax_prettyPrint :: "ExpressionSyntax \<Rightarrow> error + PrettyPrintValue"
  and Params_prettyPrint :: "Params \<Rightarrow> error + PrettyPrintValue list"
  and Hash_prettyPrint :: "Hash \<Rightarrow> error + (string \<times> PrettyPrintValue) list"
  and map_prettyPrint :: "ExpressionSyntax list \<Rightarrow> error + PrettyPrintValue list"
  and Hash_prettyPrint_forEach ::
    "InternedString list \<Rightarrow> ExpressionSyntax list \<Rightarrow> (string \<times> PrettyPrintValue) list
      \<Rightarrow> error + (string \<times> PrettyPrintValue) list"
  where
  "ExpressionSyntax_prettyPrint (Value v) = Inr (PPValue (JsLit v))"
| "ExpressionSyntax_prettyPrint (Get r) =
     Inr (PrettyPrint ''expr'' ''get'' (Some [Ref_prettyPrint r]) None None)"
| "ExpressionSyntax_prettyPrint (Helper r (ParamsAndHash p h)) =
     (case Params_prettyPrint p of Inl e \<Rightarrow> Inl e
      | Inr ps \<Rightarrow>
         (case Hash_prettyPrint h of Inl e \<Rightarrow> Inl e
          | Inr d \<Rightarrow> Inr (PrettyPrint ''expr'' (join_dot (parts r)) (Some ps) (Some d) None)))"
| "ExpressionSyntax_prettyPrint (Concat (Params es)) =
     (case map_prettyPrint es of Inl e \<Rightarrow> Inl e
      | Inr ps \<Rightarrow> Inr (PrettyPrint ''expr'' ''concat'' (Some ps) None None))"
| "ExpressionSyntax_prettyPrint (EvaluatedRef r) = Inr (PPReferenceValue r)"
| "Params_prettyPrint (Params es) = map_prettyPrint es"
| "Hash_prettyPrint (Hash ks vs) = Hash_prettyPrint_forEach ks vs []"
| "map_prettyPrint [] = Inr []"
| "map_prettyPrint (x # xs) =
     (case ExpressionSyntax_prettyPrint x of Inl e \<Rightarrow> Inl e
      | Inr y \<Rightarrow> (case map_prettyPrint xs of Inl e \<Rightarrow> Inl e | Inr ys \<Rightarrow> Inr (y # ys)))"
| "Hash_prettyPrint_forEach [] vs out = Inr out"
| "Hash_prettyPrint_forEach (k # ks) [] out = Inl (TypeError ''this.values[i] is undefined'')"
| "Hash_prettyPrint_forEach (k # ks) (v # vs) out =
     (case ExpressionSyntax_prettyPrint v of Inl e \<Rightarrow> Inl e
      | Inr y \<Rightarrow> Hash_prettyPrint_forEach ks vs (dict_set out k y))"

definition ParamsAndHash_prettyPrint ::
  "ParamsAndHash \<Rightarrow> error + PrettyPrintValue list \<times> (string \<times> PrettyPrintValue) list" where
  "ParamsAndHash_prettyPrint args =
     (case Params_prettyPrint (params args) of Inl e \<Rightarrow> Inl e
      | Inr ps \<Rightarrow> (case Hash_prettyPrint (hash args) of Inl e \<Rightarrow> Inl e | Inr d \<Rightarrow> Inr (ps, d)))"

text \<open>\<^verbatim>\<open>Templates.prettyPrint\<close> (lines 1322-1329): the position of each template, or
  \<^verbatim>\<open>null\<close>.\<close>

definition Templates_prettyPrint :: "Templates \<Rightarrow> (string \<times> nat option) list" where
  "Templates_prettyPrint t =
     [(''default'', case Templates_default t of None \<Rightarrow> None | Some d \<Rightarrow> position d),
      (''inverse'', case Templates_inverse t of None \<Rightarrow> None | Some i \<Rightarrow> position i)]"

definition pp_string :: "string option \<Rightarrow> PrettyPrintValue" where
  "pp_string s = (case s of None \<Rightarrow> PPValue (JsLit LUndefined) | Some t \<Rightarrow> PPValue (JsLit (LStr t)))"

text \<open>\<^verbatim>\<open>prettyPrint\<close> of the statement classes. The component reads
  \<^verbatim>\<open>hash.prettyPrint()\<close>, a \<^verbatim>\<open>TypeError\<close> on a \<^verbatim>\<open>null\<close> hash. A foreign statement
  answers with the dump it carries.\<close>

fun StatementSyntax_prettyPrint :: "StatementSyntax \<Rightarrow> error + PrettyPrintValue" where
  "StatementSyntax_prettyPrint (Block path args templates) =
     (case ParamsAndHash_prettyPrint args of Inl e \<Rightarrow> Inl e
      | Inr (ps, d) \<Rightarrow>
         (let block = PrettyPrint ''expr'' (join_dot path) (Some ps) (Some d) None
          in Inr (PrettyPrint ''block'' ''block'' (Some [block]) None
                    (Some (Templates_prettyPrint templates)))))"
| "StatementSyntax_prettyPrint (Unknown ref trustingMorph) =
     (let operation = (if trustingMorph then ''append-html'' else ''append-text'');
          get = PrettyPrint ''expr'' ''unknown'' (Some [Ref_prettyPrint ref]) None None
      in Inr (PrettyPrint ''append'' operation (Some [get]) None None))"
| "StatementSyntax_prettyPrint (Inline path trustingMorph args) =
     (let operation = (if trustingMorph then ''append-html'' else ''append-text'')
      in case ParamsAndHash_prettyPrint args of Inl e \<Rightarrow> Inl e
         | Inr (ps, d) \<Rightarrow>
            (let helper = PrettyPrint ''expr'' (join_dot path) (Some ps) (Some d) None
             in Inr (PrettyPrint ''append'' operation (Some [helper]) None None)))"
| "StatementSyntax_prettyPrint (DynamicProp name v) =
     (case ExpressionSyntax_prettyPrint v of Inl e \<Rightarrow> Inl e
      | Inr x \<Rightarrow> Inr (PrettyPrint ''attr'' ''prop'' (Some [pp_string (Some name), x]) None None))"
| "StatementSyntax_prettyPrint (DynamicAttr name v namespace) =
     (case ExpressionSyntax_prettyPrint v of Inl e \<Rightarrow> Inl e
      | Inr x \<Rightarrow>
         if truthy namespace
         then Inr (PrettyPrint ''attr'' ''attr'' (Some [pp_string name, x])
                     (Some [(''namespace'', pp_string namespace)]) None)
         else Inr (PrettyPrint ''attr'' ''attr'' (Some [pp_string name, x]) None None))"
| "StatementSyntax_prettyPrint (Component path h templates) =
     (case h of
        None \<Rightarrow> Inl (TypeError ''cannot read prettyPrint of null'')
      | Some h' \<Rightarrow>
         (case Hash_prettyPrint h' of Inl e \<Rightarrow> Inl e
          | Inr d \<Rightarrow>
             Inr (PrettyPrint ''block'' ''component'' (Some [Ref_prettyPrint path]) (Some d)
                    (Some (Templates_prettyPrint templates)))))"
| "StatementSyntax_prettyPrint (Text content) =
     Inr (PrettyPrint ''append'' ''append-text'' (Some [PPValue (JsLit (LStr content))]) None None)"
| "StatementSyntax_prettyPrint (Comment v) =
     Inr (PrettyPrint ''append'' ''append-comment'' (Some [PPValue (JsLit (LStr v))]) None None)"
| "StatementSyntax_prettyPrint (OpenElement tag) =
     Inr (PrettyPrint ''element'' ''open-element'' (Some [PPValue (JsLit (LStr tag))]) None None)"
| "StatementSyntax_prettyPrint CloseElement =
     Inr (PrettyPrint ''element'' ''close-element'' None None None)"
| "StatementSyntax_prettyPrint (StaticAttr name v namespace) =
     (if truthy namespace
      then Inr (PrettyPrint ''attr'' ''attr'' (Some [pp_string name, PPValue v])
                  (Some [(''namespace'', pp_string namespace)]) None)
      else Inr (PrettyPrint ''attr'' ''attr'' (Some [pp_string name, PPValue v]) None None))"
| "StatementSyntax_prettyPrint (ForeignStatement cls t b pp) =
     (case pp of None \<Rightarrow> Inl (TypeError ''prettyPrint is not a function'') | Some d \<Rightarrow> Inr d)"

text \<open>\<^verbatim>\<open>typeof obj.prettyPrint === 'function'\<close>: every statement class of this file has the
  method; a foreign statement has it when it carries a dump.\<close>

fun has_prettyPrint :: "StatementSyntax \<Rightarrow> bool" where
  "has_prettyPrint (ForeignStatement cls t b pp) = (pp \<noteq> None)"
| "has_prettyPrint _ = True"

fun constructor_name :: "StatementSyntax \<Rightarrow> string" where
  "constructor_name (Block _ _ _) = ''Block''"
| "constructor_name (Unknown _ _) = ''Unknown''"
| "constructor_name (Inline _ _ _) = ''Inline''"
| "constructor_name (DynamicProp _ _) = ''DynamicProp''"
| "constructor_name (DynamicAttr _ _ _) = ''DynamicAttr''"
| "constructor_name (Component _ _ _) = ''Component''"
| "constructor_name (Text _) = ''Text''"
| "constructor_name (Comment _) = ''Comment''"
| "constructor_name (OpenElement _) = ''OpenElement''"
| "constructor_name CloseElement = ''CloseElement''"
| "constructor_name (StaticAttr _ _ _) = ''StaticAttr''"
| "constructor_name (ForeignStatement cls _ _ _) = cls"

text \<open>The local function \<^verbatim>\<open>pretty\<close> of \<^verbatim>\<open>Template.prettyPrint\<close> (lines 121-124).\<close>

definition pretty :: "Statement \<Rightarrow> error + PrettyPrintValue" where
  "pretty obj =
     (if has_prettyPrint (stmt obj) then StatementSyntax_prettyPrint (stmt obj)
      else Inl (Error (''Cannot pretty print '' @ constructor_name (stmt obj))))"

fun map_pretty :: "Statement list \<Rightarrow> error + PrettyPrintValue list" where
  "map_pretty [] = Inr []"
| "map_pretty (s # ss) =
     (case pretty s of Inl e \<Rightarrow> Inl e
      | Inr d \<Rightarrow> (case map_pretty ss of Inl e \<Rightarrow> Inl e | Inr ds \<Rightarrow> Inr (d # ds)))"

fun map_template_pretty :: "Template list \<Rightarrow> error + PrettyPrintValue list list" where
  "map_template_pretty [] = Inr []"
| "map_template_pretty (t # ts) =
     (case map_pretty (statements t) of Inl e \<Rightarrow> Inl e
      | Inr d \<Rightarrow> (case map_template_pretty ts of Inl e \<Rightarrow> Inl e | Inr ds \<Rightarrow> Inr (d # ds)))"

text \<open>\<^verbatim>\<open>Template.prettyPrint\<close> (lines 120-129): \<^verbatim>\<open>this.root.map(...)\<close> over the array the
  root points to; a \<^verbatim>\<open>null\<close> root has no \<^verbatim>\<open>map\<close>.\<close>

definition Template_prettyPrint :: "Heap \<Rightarrow> Template \<Rightarrow> error + PrettyPrintValue list list" where
  "Template_prettyPrint heap t =
     (case root t of
        None \<Rightarrow> Inl (TypeError ''cannot read map of null'')
      | Some a \<Rightarrow> map_template_pretty (heap a))"

subsection \<open>The template builder\<close>

text \<open>
  \<^verbatim>\<open>TemplateBuilder\<close> (lines 1343-1393). The class body declares \<^verbatim>\<open>openElement\<close>,
  \<^verbatim>\<open>closeElement\<close>, \<^verbatim>\<open>staticAttr\<close>, \<^verbatim>\<open>dynamicAttr\<close> and \<^verbatim>\<open>inline\<close> (lines 1362-1380).
  When the module is loaded, the loop of lines 1384-1387 adds the \<^verbatim>\<open>build\<close> of every class
  of \<^verbatim>\<open>StatementNodes\<close> to \<^verbatim>\<open>builders\<close> under the key of the class, and the loop of lines
  1389-1393 assigns \<^verbatim>\<open>TemplateBuilder.prototype[key]\<close> for every key of \<^verbatim>\<open>builders\<close>,
  these five among them: a function that pushes \<^verbatim>\<open>builders[key](...args)\<close> onto the
  statements. An assignment to a property of the prototype replaces the method of the
  class body, so a call of \<^verbatim>\<open>builder.dynamicAttr(...)\<close> runs the assigned function and
  no call reaches the five declared bodies. The declared body of \<^verbatim>\<open>dynamicAttr\<close>, the one
  that differs from its \<^verbatim>\<open>build\<close> in more than the push, is kept below as
  \<open>declared_dynamicAttr\<close>. The keys \<^verbatim>\<open>value\<close> and \<^verbatim>\<open>hash\<close> of \<^verbatim>\<open>builders\<close> get a method
  too, which pushes an expression or a hash onto the statements; they are left out.
\<close>

record TemplateBuilder =
  builder_statements :: "Statement list"

definition new_TemplateBuilder :: TemplateBuilder where
  "new_TemplateBuilder = \<lparr>builder_statements = []\<rparr>"

definition TemplateBuilder_template :: "TemplateBuilder \<Rightarrow> Template" where
  "TemplateBuilder_template b = Template_fromStatements (builder_statements b)"

text \<open>\<^verbatim>\<open>specExpr\<close> and \<^verbatim>\<open>params\<close> (lines 1354-1360).\<close>

definition TemplateBuilder_specExpr :: "ExpressionSexp \<Rightarrow> error + ExpressionSyntax" where
  "TemplateBuilder_specExpr sp = buildExpression sp"

definition TemplateBuilder_params :: "Params \<Rightarrow> Hash \<Rightarrow> ParamsAndHash" where
  "TemplateBuilder_params p h = ParamsAndHash p h"

text \<open>\<^verbatim>\<open>this.statements.push(builders[key](...args))\<close>, for a builder that returned a
  statement.\<close>

definition TemplateBuilder_push :: "TemplateBuilder \<Rightarrow> StatementSyntax \<Rightarrow> TemplateBuilder" where
  "TemplateBuilder_push b s =
     b\<lparr>builder_statements := builder_statements b @ [Statement s False False]\<rparr>"

definition TemplateBuilder_block ::
  "TemplateBuilder \<Rightarrow> InternedString list \<Rightarrow> ParamsAndHash \<Rightarrow> Templates \<Rightarrow> TemplateBuilder" where
  "TemplateBuilder_block b path args templates = TemplateBuilder_push b (Block_build path args templates)"

definition TemplateBuilder_inline ::
  "TemplateBuilder \<Rightarrow> string \<Rightarrow> ParamsAndHash \<Rightarrow> bool \<Rightarrow> TemplateBuilder" where
  "TemplateBuilder_inline b path args trust = TemplateBuilder_push b (Inline_build path args trust)"

definition TemplateBuilder_unknown :: "TemplateBuilder \<Rightarrow> string \<Rightarrow> bool \<Rightarrow> TemplateBuilder" where
  "TemplateBuilder_unknown b path unsafe = TemplateBuilder_push b (Unknown_build path unsafe)"

definition TemplateBuilder_dynamicAttr ::
  "TemplateBuilder \<Rightarrow> string option \<Rightarrow> ExpressionSyntax \<Rightarrow> string option \<Rightarrow> TemplateBuilder" where
  "TemplateBuilder_dynamicAttr b key v namespace =
     TemplateBuilder_push b (DynamicAttr_build key v namespace)"

definition TemplateBuilder_dynamicProp ::
  "TemplateBuilder \<Rightarrow> InternedString \<Rightarrow> ExpressionSyntax \<Rightarrow> TemplateBuilder" where
  "TemplateBuilder_dynamicProp b name v = TemplateBuilder_push b (DynamicProp_build name v)"

definition TemplateBuilder_component ::
  "TemplateBuilder \<Rightarrow> string \<Rightarrow> Template option \<Rightarrow> Template option \<Rightarrow> Hash option
    \<Rightarrow> TemplateBuilder" where
  "TemplateBuilder_component b path defaultTemplate inverseTemplate h =
     TemplateBuilder_push b (Component_build path defaultTemplate inverseTemplate h)"

definition TemplateBuilder_text :: "TemplateBuilder \<Rightarrow> string \<Rightarrow> TemplateBuilder" where
  "TemplateBuilder_text b content = TemplateBuilder_push b (Text_build content)"

definition TemplateBuilder_comment :: "TemplateBuilder \<Rightarrow> string \<Rightarrow> TemplateBuilder" where
  "TemplateBuilder_comment b v = TemplateBuilder_push b (Comment_build v)"

definition TemplateBuilder_openElement :: "TemplateBuilder \<Rightarrow> string \<Rightarrow> TemplateBuilder" where
  "TemplateBuilder_openElement b tag = TemplateBuilder_push b (OpenElement_build tag)"

definition TemplateBuilder_closeElement :: "TemplateBuilder \<Rightarrow> TemplateBuilder" where
  "TemplateBuilder_closeElement b = TemplateBuilder_push b CloseElement_build"

definition TemplateBuilder_staticAttr ::
  "TemplateBuilder \<Rightarrow> string option \<Rightarrow> JsValue \<Rightarrow> string option \<Rightarrow> TemplateBuilder" where
  "TemplateBuilder_staticAttr b name v namespace =
     TemplateBuilder_push b (StaticAttr_build name v namespace)"

text \<open>The method the class body declares at lines 1374-1376,
  \<^verbatim>\<open>dynamicAttr(key, value, namespace = null) { return DynamicAttr.build(key, value); }\<close>:
  it would drop the namespace.\<close>

definition declared_dynamicAttr ::
  "string option \<Rightarrow> ExpressionSyntax \<Rightarrow> string option \<Rightarrow> StatementSyntax" where
  "declared_dynamicAttr key v namespace = DynamicAttr_build key v None"

subsection \<open>Concrete inputs\<close>

text \<open>A frame with one component definition (\<^verbatim>\<open>x-foo\<close>) and two helpers (\<^verbatim>\<open>if\<close> and
  \<^verbatim>\<open>x-foo\<close>), an empty builder, and a hash with one static and one dynamic value.\<close>

definition example_frame :: Frame where
  "example_frame =
     \<lparr>scope = Scope 0,
      getBase =
        (\<lambda>name. case name of None \<Rightarrow> OpaqueReference 0
                 | Some n \<Rightarrow> PathReference (OpaqueReference 0) n),
      lookupHelper = (\<lambda>path. foldl PathReference (OpaqueReference 1) path),
      hasHelper = (\<lambda>path. path = [''if''] \<or> path = [''x-foo'']),
      getComponentDefinition =
        (\<lambda>path s. if path = [''x-foo''] then Some (ComponentDefinition 7) else None)\<rparr>"

definition example_stack :: ElementStack where
  "example_stack = new_ElementStack (Node 0) None"

definition example_hash :: Hash where
  "example_hash = Hash [''class'', ''title''] [Value (LStr ''big''), Get (Ref [''name''])]"

definition example_env :: PullEnv where
  "example_env =
     \<lparr>current = (\<lambda>r. JsLit (LStr ''now'')), call = (\<lambda>f ps h. JsLit LNull),
      toString = (\<lambda>v. case v of JsLit (LStr s) \<Rightarrow> s | _ \<Rightarrow> [])\<rparr>"

text \<open>Two template specs: a body with one text statement, and a top-level template
  with no statement.\<close>

definition example_specs :: "TemplateSpec list" where
  "example_specs =
     [\<lparr>spec_statements = [TextSexp ''hi''], spec_locals = None, spec_meta = None\<rparr>,
      \<lparr>spec_statements = [], spec_locals = None, spec_meta = None\<rparr>]"

definition example_morph :: ContentMorph where
  "example_morph = \<lparr>morph_parentNode = Node 0, morph_frame = example_frame\<rparr>"

text \<open>The statements of a template that starts with an inline append and ends with a
  text.\<close>

definition example_sexps :: "StatementSexp list" where
  "example_sexps = [InlineSexp [''foo''] None None False, TextSexp ''x'', TextSexp ''y'']"

text \<open>A template whose root array holds the template itself, with one statement of a
  class from outside this file that has no \<^verbatim>\<open>prettyPrint\<close>.\<close>

definition foreign_template :: Template where
  "foreign_template =
     new_Template None (Some 0) (Some 0) None
       (Some [Statement (ForeignStatement ''Custom'' ''custom'' False None) False False])
       None (Some False)"

subsection \<open>Building a statement from the arguments a wire tuple stands for\<close>

text \<open>
  For a wire tuple, the call of the \<^verbatim>\<open>build\<close> of its class with the equivalent arguments
  already built: the same names, values and flags; the path joined with dots where
  \<^verbatim>\<open>build\<close> takes a dotted string (\<^verbatim>\<open>Inline\<close>, \<^verbatim>\<open>Unknown\<close>); the expression, the
  params and the hash decoded; the templates looked up in the array. A tag that is no key
  of \<^verbatim>\<open>builders\<close> has no builder to call.
\<close>

definition template_at :: "Template list \<Rightarrow> nat option \<Rightarrow> Template option" where
  "template_at children templateId =
     (case templateId of None \<Rightarrow> None | Some i \<Rightarrow> nth_js children i)"

fun build_equivalent :: "StatementSexp \<Rightarrow> Template list \<Rightarrow> error + StatementSyntax" where
  "build_equivalent (BlockSexp path ps raw templateId inverseId) children =
     (case ParamsAndHash_fromSpec ps raw of Inl e \<Rightarrow> Inl e
      | Inr args \<Rightarrow>
          Inr (Block_build path args
                 (Templates_build (template_at children templateId) (template_at children inverseId))))"
| "build_equivalent (InlineSexp path ps raw trust) children =
     (case ParamsAndHash_fromSpec ps raw of Inl e \<Rightarrow> Inl e
      | Inr args \<Rightarrow> Inr (Inline_build (join_dot path) args trust))"
| "build_equivalent (UnknownSexp path unsafe) children = Inr (Unknown_build (join_dot path) unsafe)"
| "build_equivalent (DynamicAttrSexp name v namespace) children =
     (case buildExpression v of Inl e \<Rightarrow> Inl e
      | Inr x \<Rightarrow> Inr (DynamicAttr_build (Some name) x namespace))"
| "build_equivalent (DynamicPropSexp name v namespace) children =
     (case buildExpression v of Inl e \<Rightarrow> Inl e | Inr x \<Rightarrow> Inr (DynamicProp_build name x))"
| "build_equivalent (ComponentSexp path attrs templateId inverseId) children =
     (case Hash_fromSpec attrs of Inl e \<Rightarrow> Inl e
      | Inr h \<Rightarrow>
          Inr (Component_build path (template_at children templateId)
                 (template_at children inverseId) (Some h)))"
| "build_equivalent (TextSexp content) children = Inr (Text_build content)"
| "build_equivalent (CommentSexp v) children = Inr (Comment_build v)"
| "build_equivalent (OpenElementSexp tag) children = Inr (OpenElement_build tag)"
| "build_equivalent CloseElementSexp children = Inr CloseElement_build"
| "build_equivalent (StaticAttrSexp name v namespace) children =
     Inr (StaticAttr_build (Some name) (JsLit (LStr v)) namespace)"
| "build_equivalent (OtherSexp t) children = Inl (TypeError ''builders[key] is not a function'')"

text \<open>The tuples on which decoding and building agree: a path that \<^verbatim>\<open>split('.')\<close> gives
  back from its joined form (it has a segment, and no segment holds a dot), and a
  namespace of a dynamic attribute that is not the empty string.\<close>

definition dot_free :: "string \<Rightarrow> bool" where
  "dot_free s = (CHR ''.'' \<notin> set s)"

fun parity_condition :: "StatementSexp \<Rightarrow> bool" where
  "parity_condition (InlineSexp path ps raw trust) = (path \<noteq> [] \<and> list_all dot_free path)"
| "parity_condition (UnknownSexp path unsafe) = (path \<noteq> [] \<and> list_all dot_free path)"
| "parity_condition (DynamicAttrSexp name v namespace) = (namespace \<noteq> Some [])"
| "parity_condition (ComponentSexp path attrs templateId inverseId) = dot_free path"
| "parity_condition _ = True"

section \<open>Properties\<close>

subsection \<open>Helper lemmas\<close>

lemma addSources_append: "addSources srcs rs = srcs @ rs"
  unfolding addSources_def by (induction rs arbitrary: srcs) (simp_all add: addSource_def)

lemma EvaluatedHash_at_some_absent:
  "key \<notin> set ks \<Longrightarrow> EvaluatedHash_at_some ks i refs key = None"
  by (induction ks arbitrary: i) auto

lemma EvaluatedHash_at_some_first:
  "j < length ks \<Longrightarrow> ks ! j = key \<Longrightarrow> (\<forall>m<j. ks ! m \<noteq> key) \<Longrightarrow>
   EvaluatedHash_at_some ks i refs key = nth_js refs (i + j)"
proof (induction ks arbitrary: i j)
  case Nil
  then show ?case by simp
next
  case (Cons k ks)
  show ?case
  proof (cases j)
    case 0
    with Cons.prems show ?thesis by simp
  next
    case (Suc j')
    with Cons.prems have "k \<noteq> key" by auto
    moreover have "EvaluatedHash_at_some ks (Suc i) refs key = nth_js refs (Suc i + j')"
      using Cons.prems Suc by (intro Cons.IH) auto
    ultimately show ?thesis using Suc by simp
  qed
qed

text \<open>\<^verbatim>\<open>EvaluatedParams\<close> and \<^verbatim>\<open>EvaluatedHash\<close> register every child they evaluate.\<close>

lemma EvaluatedParams_sources:
  "sources (Params_evaluate frame (Params es)) = map (ExpressionSyntax_evaluate frame) es"
  by (simp add: new_EvaluatedParams_def addSources_append)

lemma EvaluatedHash_sources:
  "sources (Hash_evaluate frame (Hash ks vs)) = map (ExpressionSyntax_evaluate frame) vs"
  by (simp add: new_EvaluatedHash_def addSources_append)

text \<open>The empty evaluated arguments do not depend on a frame, and pull to no params and an
  empty hash.\<close>

lemma EvaluatedParamsAndHash_empty_any_frame:
  "ParamsAndHash_evaluate frame ParamsAndHash_empty = EvaluatedParamsAndHash_empty"
  by (simp add: ParamsAndHash_empty_def Params_empty_def Hash_empty_def EvaluatedParamsAndHash_empty_def)

lemma EvaluatedParamsAndHash_empty_value:
  "Reference_value env EvaluatedParamsAndHash_empty =
     Inr (JsObject [(''params'', JsArray []), (''hash'', JsObject [])])"
  by (simp add: EvaluatedParamsAndHash_empty_def new_EvaluatedParamsAndHash_def addSource_def
      new_EvaluatedParams_def new_EvaluatedHash_def addSources_def dict_of_def)

lemma EvaluatedParamsAndHash_empty_eq:
  "EvaluatedParamsAndHash_empty =
     EvaluatedParamsAndHash [EvaluatedParams [] []] (EvaluatedParams [] []) (EvaluatedHash [] [] [])"
  by (simp add: EvaluatedParamsAndHash_empty_def new_EvaluatedParamsAndHash_def addSource_def
      new_EvaluatedParams_def new_EvaluatedHash_def addSources_def)

text \<open>What a call of the builder adds to its log and to its list of render nodes.\<close>

lemma calls_createMorph: "calls (fst (createMorph stack k opts)) = calls stack @ [CreateMorphCall k opts]"
  by (simp add: createMorph_def record_call_def)

lemma calls_createContentMorph:
  "calls (fst (createContentMorph stack k opts)) = calls stack @ [CreateContentMorphCall k opts]"
  by (simp add: createContentMorph_def record_call_def)

lemma morphList_createMorph:
  "morphList (fst (createMorph stack k opts)) = morphList stack @ [Morph k opts]"
  by (simp add: createMorph_def record_call_def)

lemma morphList_createContentMorph:
  "morphList (fst (createContentMorph stack k opts)) = morphList stack @ [Morph k opts]"
  by (simp add: createContentMorph_def record_call_def)





text \<open>The attributes \<^verbatim>\<open>FallbackMorph.init\<close> builds, one for each value of the hash.\<close>

lemma isStatic_Value: "ExpressionSyntax_isStatic e \<Longrightarrow> \<exists>v. e = Value v"
  by (cases e) simp_all

lemma FallbackMorph_init_forEach_total:
  "\<exists>attrs. FallbackMorph_init_forEach env frame ks vs i = Inr attrs"
proof (induction vs arbitrary: i)
  case Nil
  show ?case by simp
next
  case (Cons v vs)
  from Cons.IH [of "Suc i"] obtain attrs
    where "FallbackMorph_init_forEach env frame ks vs (Suc i) = Inr attrs" ..
  then show ?case
    by (cases "ExpressionSyntax_isStatic v") (auto dest: isStatic_Value)
qed

lemma FallbackMorph_init_forEach_attrs:
  "FallbackMorph_init_forEach env frame ks vs i = Inr attrs \<Longrightarrow>
   length attrs = length vs \<and>
   (\<forall>j<length vs.
      (ExpressionSyntax_isStatic (vs ! j) \<longrightarrow>
         (\<exists>v. Reference_value env (ExpressionSyntax_evaluate frame (vs ! j)) = Inr v \<and>
              attrs ! j = StaticAttr (nth_js ks (i + j)) v None)) \<and>
      (\<not> ExpressionSyntax_isStatic (vs ! j) \<longrightarrow>
         attrs ! j = DynamicAttr (nth_js ks (i + j)) (vs ! j) None))"
proof (induction vs arbitrary: i attrs)
  case Nil
  then show ?case by simp
next
  case (Cons v vs)
  from Cons.prems obtain a rest where a:
      "(if ExpressionSyntax_isStatic v
        then (case Reference_value env (ExpressionSyntax_evaluate frame v) of
                Inl e \<Rightarrow> Inl e | Inr x \<Rightarrow> Inr (StaticAttr_build (nth_js ks i) x None))
        else Inr (DynamicAttr_build (nth_js ks i) v None)) = Inr a"
    and rest: "FallbackMorph_init_forEach env frame ks vs (Suc i) = Inr rest"
    and attrs: "attrs = a # rest"
    by (auto simp: Let_def split: sum.splits)
  note IH = Cons.IH [OF rest]
  have head:
    "(ExpressionSyntax_isStatic v \<longrightarrow>
        (\<exists>x. Reference_value env (ExpressionSyntax_evaluate frame v) = Inr x \<and>
             a = StaticAttr (nth_js ks i) x None)) \<and>
     (\<not> ExpressionSyntax_isStatic v \<longrightarrow> a = DynamicAttr (nth_js ks i) v None)"
    using a
    by (auto simp: StaticAttr_build_def DynamicAttr_build_def intern_def truthy_def
        split: sum.splits if_splits)
  show ?case
  proof (intro conjI allI impI)
    show "length attrs = length (v # vs)" using IH attrs by simp
  next
    fix j
    assume j: "j < length (v # vs)" and st: "ExpressionSyntax_isStatic ((v # vs) ! j)"
    show "\<exists>x. Reference_value env (ExpressionSyntax_evaluate frame ((v # vs) ! j)) = Inr x \<and>
              attrs ! j = StaticAttr (nth_js ks (i + j)) x None"
    proof (cases j)
      case 0
      with head st attrs show ?thesis by simp
    next
      case (Suc j')
      with IH j st attrs show ?thesis by simp
    qed
  next
    fix j
    assume j: "j < length (v # vs)" and st: "\<not> ExpressionSyntax_isStatic ((v # vs) ! j)"
    show "attrs ! j = DynamicAttr (nth_js ks (i + j)) ((v # vs) ! j) None"
    proof (cases j)
      case 0
      with head st attrs show ?thesis by simp
    next
      case (Suc j')
      with IH j st attrs show ?thesis by simp
    qed
  qed
qed

lemma FallbackMorph_init_forEach_env:
  "FallbackMorph_init_forEach env' frame ks vs i = FallbackMorph_init_forEach env frame ks vs i"
proof (induction vs arbitrary: i)
  case Nil
  show ?case by simp
next
  case (Cons v vs)
  show ?case
    by (cases "ExpressionSyntax_isStatic v") (auto simp: Cons.IH dest: isStatic_Value)
qed

lemma FallbackMorph_append_attrs:
  "FallbackMorph_append m st = Inr r \<Longrightarrow> fallback_attrs (fst r) = fallback_attrs m"
  by (auto simp: FallbackMorph_append_def Let_def split_beta split: sum.splits option.splits)

text \<open>What \<^verbatim>\<open>Template.fromSpec\<close> leaves in the array of templates: one template for each
  spec, at the index of the spec, decoded against the templates before it.\<close>

lemma Template_fromSpec_loop_shape:
  "Template_fromSpec_loop a specs ts0 = Inr ts \<Longrightarrow>
   length ts = length ts0 + length specs \<and> take (length ts0) ts = ts0 \<and>
   (\<forall>i<length specs. \<exists>sts.
      buildStatements (spec_statements (specs ! i)) (take (length ts0 + i) ts) = Inr sts \<and>
      ts ! (length ts0 + i) =
        new_Template (spec_meta (specs ! i)) (Some a) (Some (length ts0 + i)) (spec_locals (specs ! i))
          (Some sts) (Some (specs ! i)) (Some (length (spec_statements (specs ! i)) = 0)))"
proof (induction specs arbitrary: ts0)
  case Nil
  then show ?case by simp
next
  case (Cons sp specs)
  from Cons.prems obtain sts where sts: "buildStatements (spec_statements sp) ts0 = Inr sts"
    and rest: "Template_fromSpec_loop a specs
       (ts0 @ [new_Template (spec_meta sp) (Some a) (Some (length ts0)) (spec_locals sp)
                 (Some sts) (Some sp) (Some (length (spec_statements sp) = 0))]) = Inr ts"
    by (auto split: sum.splits)
  let ?t = "new_Template (spec_meta sp) (Some a) (Some (length ts0)) (spec_locals sp)
                 (Some sts) (Some sp) (Some (length (spec_statements sp) = 0))"
  from Cons.IH [OF rest]
  have len: "length ts = length ts0 + 1 + length specs"
    and pre: "take (length ts0 + 1) ts = ts0 @ [?t]"
    and tail: "\<forall>i<length specs. \<exists>sts.
      buildStatements (spec_statements (specs ! i)) (take (length ts0 + 1 + i) ts) = Inr sts \<and>
      ts ! (length ts0 + 1 + i) =
        new_Template (spec_meta (specs ! i)) (Some a) (Some (length ts0 + 1 + i))
          (spec_locals (specs ! i)) (Some sts) (Some (specs ! i))
          (Some (length (spec_statements (specs ! i)) = 0))"
    by simp_all
  from pre have pre0: "take (length ts0) ts = ts0"
    by (metis append_eq_conv_conj length_append_singleton lessI less_imp_le_nat min.absorb2
        take_take take_all_iff length_take append_take_drop_id)
  from pre len have at0: "ts ! length ts0 = ?t"
    by (metis add.commute less_add_one nth_append_length nth_take plus_1_eq_Suc)
  show ?case
  proof (intro conjI allI impI)
    show "length ts = length ts0 + length (sp # specs)" using len by simp
    show "take (length ts0) ts = ts0" by (rule pre0)
  next
    fix i
    assume i: "i < length (sp # specs)"
    show "\<exists>sts. buildStatements (spec_statements ((sp # specs) ! i)) (take (length ts0 + i) ts) = Inr sts \<and>
      ts ! (length ts0 + i) =
        new_Template (spec_meta ((sp # specs) ! i)) (Some a) (Some (length ts0 + i))
          (spec_locals ((sp # specs) ! i)) (Some sts) (Some ((sp # specs) ! i))
          (Some (length (spec_statements ((sp # specs) ! i)) = 0))"
    proof (cases i)
      case 0
      with sts pre0 at0 show ?thesis by simp
    next
      case (Suc j)
      with i have "j < length specs" by simp
      with tail Suc show ?thesis by simp
    qed
  qed
qed


lemma Template_fromSpec_shape:
  assumes "Template_fromSpec a heap specs = Inr (heap', r)"
  shows "length (heap' a) = length specs"
    and "r = (if specs = [] then None else Some (last (heap' a)))"
    and "i < length specs \<Longrightarrow> \<exists>sts.
      buildStatements (spec_statements (specs ! i)) (take i (heap' a)) = Inr sts \<and>
      heap' a ! i =
        new_Template (spec_meta (specs ! i)) (Some a) (Some i) (spec_locals (specs ! i))
          (Some sts) (Some (specs ! i)) (Some (length (spec_statements (specs ! i)) = 0))"
proof -
  from assms obtain ts where ts: "Template_fromSpec_loop a specs [] = Inr ts"
    and h: "heap' = heap(a := ts)" and r: "r = (if ts = [] then None else Some (last ts))"
    by (auto simp: Template_fromSpec_def split: sum.splits)
  note shape = Template_fromSpec_loop_shape [OF ts]
  from shape h show len: "length (heap' a) = length specs" by simp
  from shape h r show "r = (if specs = [] then None else Some (last (heap' a)))" by auto
  show "\<exists>sts.
      buildStatements (spec_statements (specs ! i)) (take i (heap' a)) = Inr sts \<and>
      heap' a ! i =
        new_Template (spec_meta (specs ! i)) (Some a) (Some i) (spec_locals (specs ! i))
          (Some sts) (Some (specs ! i)) (Some (length (spec_statements (specs ! i)) = 0))"
    if "i < length specs"
    using shape h that by simp
qed

lemma buildStatements_Nil: "buildStatements [] children = Inr []"
  by (simp add: buildStatements_def)

lemma new_Template_sel:
  "statements (new_Template m r p l (Some sts) sp e) = sts"
  "isEmpty (new_Template m r p l sts' sp (Some b)) = b"
  "root (new_Template m r p l sts' sp e) = r"
  "position (new_Template m r p l sts' sp e) = p"
  by (simp_all add: new_Template_def)

text \<open>What \<^verbatim>\<open>buildStatements\<close> returns: the decoded statement of each tuple, the first
  with \<^verbatim>\<open>frontBoundary\<close> and the last with \<^verbatim>\<open>backBoundary\<close> when their tags are boundary
  candidates.\<close>

lemma map_fromSpec_shape:
  "map_fromSpec sexps children = Inr built \<Longrightarrow>
   length built = length sexps \<and>
   (\<forall>i<length sexps. \<exists>st. StatementNodes_fromSpec (sexps ! i) children = Inr st \<and>
        built ! i = Statement st False False)"
proof (induction sexps arbitrary: built)
  case Nil
  then show ?case by simp
next
  case (Cons s sexps)
  from Cons.prems obtain x xs where x: "StatementNodes_fromSpec s children = Inr x"
    and xs: "map_fromSpec sexps children = Inr xs" and b: "built = Statement x False False # xs"
    by (auto split: sum.splits)
  from Cons.IH [OF xs] x b show ?case
    by (auto simp: nth_Cons split: nat.splits)
qed

lemma StatementNodes_fromSpec_type:
  "StatementNodes_fromSpec s children = Inr st \<Longrightarrow>
   (StatementSyntax_type st \<in> set BOUNDARY_CANDIDATES) = (statement_tag s \<in> set BOUNDARY_CANDIDATES)"
  by (cases s)
     (auto simp: BOUNDARY_CANDIDATES_def Block_fromSpec_def Inline_fromSpec_def Unknown_fromSpec_def
        DynamicAttr_fromSpec_def DynamicProp_fromSpec_def Component_fromSpec_def Text_fromSpec_def
        Comment_fromSpec_def OpenElement_fromSpec_def CloseElement_fromSpec_def
        StaticAttr_fromSpec_def split: sum.splits)

lemma buildStatements_marks:
  assumes "buildStatements sexps children = Inr built"
  shows "length built = length sexps \<and>
   (\<forall>i<length sexps.
      (\<exists>st. StatementNodes_fromSpec (sexps ! i) children = Inr st \<and> stmt (built ! i) = st) \<and>
      frontBoundary (built ! i) = (i = 0 \<and> statement_tag (sexps ! 0) \<in> set BOUNDARY_CANDIDATES) \<and>
      backBoundary (built ! i) =
        (Suc i = length sexps \<and> statement_tag (sexps ! i) \<in> set BOUNDARY_CANDIDATES))"
proof (cases "sexps = []")
  case True
  with assms show ?thesis by (simp add: buildStatements_def)
next
  case False
  with assms obtain b0 where b0: "map_fromSpec sexps children = Inr b0"
    by (auto simp: buildStatements_def split: sum.splits)
  note sh = map_fromSpec_shape [OF b0]
  define b1 where "b1 =
    (if statement_tag (sexps ! 0) \<in> set BOUNDARY_CANDIDATES
     then b0[0 := Statement (stmt (b0 ! 0)) True (backBoundary (b0 ! 0))] else b0)"
  define n where "n = length b1 - 1"
  have built: "built =
    (if statement_tag (sexps ! (length sexps - 1)) \<in> set BOUNDARY_CANDIDATES
     then b1[n := Statement (stmt (b1 ! n)) (frontBoundary (b1 ! n)) True] else b1)"
    using assms False b0 by (auto simp: buildStatements_def b1_def n_def Let_def)
  have len1: "length b1 = length sexps" using sh by (simp add: b1_def)
  have n: "n = length sexps - 1" by (simp add: n_def len1)
  have pos: "0 < length sexps" using False by simp
  have b1: "stmt (b1 ! i) = stmt (b0 ! i) \<and>
      frontBoundary (b1 ! i) = (i = 0 \<and> statement_tag (sexps ! 0) \<in> set BOUNDARY_CANDIDATES) \<and>
      backBoundary (b1 ! i) = False" if "i < length sexps" for i
  proof -
    from sh that have fi: "\<not> frontBoundary (b0 ! i)" "\<not> backBoundary (b0 ! i)" by auto
    from sh pos have f0: "\<not> backBoundary (b0 ! 0)" by auto
    from sh that have "i < length b0" by simp
    with fi f0 show ?thesis by (cases "i = 0") (auto simp: b1_def nth_list_update)
  qed
  have bi: "stmt (built ! i) = stmt (b1 ! i) \<and>
      frontBoundary (built ! i) = frontBoundary (b1 ! i) \<and>
      backBoundary (built ! i) =
        ((i = n \<and> statement_tag (sexps ! n) \<in> set BOUNDARY_CANDIDATES) \<or> backBoundary (b1 ! i))"
    if "i < length sexps" for i
  proof (cases "i = n")
    case True
    with that len1 show ?thesis by (simp add: built n)
  next
    case False
    with that len1 show ?thesis by (simp add: built n)
  qed
  show ?thesis
  proof (intro conjI allI impI)
    show "length built = length sexps" using len1 by (simp add: built)
  next
    fix i
    assume i: "i < length sexps"
    from sh i obtain st where st: "StatementNodes_fromSpec (sexps ! i) children = Inr st"
      and b0i: "b0 ! i = Statement st False False" by blast
    have "stmt (built ! i) = st"
      using b1 [OF i] bi [OF i] b0i by simp
    with st show "\<exists>st. StatementNodes_fromSpec (sexps ! i) children = Inr st \<and> stmt (built ! i) = st"
      by blast
    show "frontBoundary (built ! i) = (i = 0 \<and> statement_tag (sexps ! 0) \<in> set BOUNDARY_CANDIDATES)"
      using b1 [OF i] bi [OF i] by simp
    have "(i = n) = (Suc i = length sexps)" using i by (auto simp: n)
    then show "backBoundary (built ! i) =
        (Suc i = length sexps \<and> statement_tag (sexps ! i) \<in> set BOUNDARY_CANDIDATES)"
      using b1 [OF i] bi [OF i] by auto
  qed
qed

text \<open>Every expression, statement and template that was decoded can be pretty printed; a
  list of statements with one that has no \<^verbatim>\<open>prettyPrint\<close> cannot.\<close>

lemma decoded_expression_prettyPrint:
  "(\<forall>e. buildExpression s = Inr e \<longrightarrow> (\<exists>d. ExpressionSyntax_prettyPrint e = Inr d))"
  "(\<forall>es. map_buildExpression ss = Inr es \<longrightarrow> (\<exists>ds. map_prettyPrint es = Inr ds))"
  "(\<forall>ks vs out. Hash_fromSpec_loop raw = Inr (ks, vs) \<longrightarrow>
      (\<exists>d. Hash_prettyPrint_forEach ks vs out = Inr d))"
proof (induction s and ss and raw rule: buildExpression_map_buildExpression_Hash_fromSpec_loop.induct)
  case (1 v)
  show ?case by simp
next
  case (2 ps)
  show ?case by simp
next
  case (3 path ps raw)
  show ?case
  proof (intro allI impI)
    fix e
    assume e: "buildExpression (HelperSexp path ps raw) = Inr e"
    then obtain p where p: "(case ps of None \<Rightarrow> Inr Params_empty
            | Some sexp \<Rightarrow>
                if sexp = [] then Inr Params_empty
                else case map_buildExpression sexp of Inl x \<Rightarrow> Inl x
                     | Inr es \<Rightarrow> Inr (Params es)) = Inr p"
      by (auto split: sum.splits)
    with e obtain h where h: "(case raw of None \<Rightarrow> Inr Hash_empty
                 | Some rawPairs \<Rightarrow>
                     (case Hash_fromSpec_loop rawPairs of Inl e \<Rightarrow> Inl e
                      | Inr (ks, vs) \<Rightarrow> Inr (Hash ks vs))) = Inr h"
      and eq: "e = Helper (Ref path) (ParamsAndHash p h)"
      by (auto split: sum.splits)
    have pp: "\<exists>ds. Params_prettyPrint p = Inr ds"
    proof (cases ps)
      case None
      with p show ?thesis by (auto simp: Params_empty_def)
    next
      case (Some x2)
      show ?thesis
      proof (cases "x2 = []")
        case True
        with p Some show ?thesis by (auto simp: Params_empty_def)
      next
        case False
        with p Some obtain es where es: "map_buildExpression x2 = Inr es" and "p = Params es"
          by (auto split: sum.splits)
        with "3.IH"(1) [OF Some False] show ?thesis by auto
      qed
    qed
    have hp: "\<exists>d. Hash_prettyPrint h = Inr d"
    proof (cases raw)
      case None
      with h show ?thesis by (auto simp: Hash_empty_def)
    next
      case (Some x2)
      with h obtain ks vs where l: "Hash_fromSpec_loop x2 = Inr (ks, vs)" and "h = Hash ks vs"
        by (auto split: sum.splits)
      with "3.IH"(2) [OF p Some] show ?thesis by auto
    qed
    from pp hp eq show "\<exists>d. ExpressionSyntax_prettyPrint e = Inr d" by auto
  qed
next
  case (4 ps)
  show ?case
  proof (intro allI impI)
    fix e
    assume e: "buildExpression (ConcatSexp ps) = Inr e"
    show "\<exists>d. ExpressionSyntax_prettyPrint e = Inr d"
    proof (cases ps)
      case None
      with e show ?thesis by (auto simp: Params_empty_def)
    next
      case (Some x2)
      show ?thesis
      proof (cases "x2 = []")
        case True
        with e Some show ?thesis by (auto simp: Params_empty_def)
      next
        case False
        with e Some obtain es where es: "map_buildExpression x2 = Inr es" and "e = Concat (Params es)"
          by (auto split: sum.splits)
        with "4.IH" [OF Some False] show ?thesis by auto
      qed
    qed
  qed
next
  case (5 t)
  show ?case by simp
next
  case 6
  show ?case by simp
next
  case (7 s ss)
  show ?case
  proof (intro allI impI)
    fix es
    assume "map_buildExpression (s # ss) = Inr es"
    then obtain x xs where x: "buildExpression s = Inr x" and xs: "map_buildExpression ss = Inr xs"
      and "es = x # xs"
      by (auto split: sum.splits)
    with "7.IH"(1) "7.IH"(2) [OF x] show "\<exists>ds. map_prettyPrint es = Inr ds" by auto
  qed
next
  case 8
  show ?case by simp
next
  case (9 key expr rest)
  show ?case
  proof (intro allI impI)
    fix ks vs out
    assume "Hash_fromSpec_loop ((key, expr) # rest) = Inr (ks, vs)"
    then obtain v ks' vs' where v: "buildExpression expr = Inr v"
      and r: "Hash_fromSpec_loop rest = Inr (ks', vs')" and "ks = key # ks'" "vs = v # vs'"
      by (auto split: sum.splits)
    with "9.IH"(1) "9.IH"(2) [OF v]
    show "\<exists>d. Hash_prettyPrint_forEach ks vs out = Inr d"
      by (auto split: sum.splits)
  qed
qed

lemma decoded_params_prettyPrint:
  assumes "Params_fromSpec ps = Inr p"
  shows "\<exists>d. Params_prettyPrint p = Inr d"
proof (cases ps)
  case None
  with assms show ?thesis by (auto simp: Params_fromSpec_def Params_empty_def)
next
  case (Some sexp)
  show ?thesis
  proof (cases "sexp = []")
    case True
    with assms Some show ?thesis by (auto simp: Params_fromSpec_def Params_empty_def)
  next
    case False
    with assms Some obtain es where es: "map_buildExpression sexp = Inr es" and p: "p = Params es"
      by (auto simp: Params_fromSpec_def split: sum.splits)
    from decoded_expression_prettyPrint(2) [of sexp] es obtain ds
      where "map_prettyPrint es = Inr ds" by blast
    with p show ?thesis by simp
  qed
qed

lemma decoded_hash_prettyPrint:
  assumes "Hash_fromSpec raw = Inr h"
  shows "\<exists>d. Hash_prettyPrint h = Inr d"
proof (cases raw)
  case None
  with assms show ?thesis by (auto simp: Hash_fromSpec_def Hash_empty_def)
next
  case (Some rawPairs)
  with assms obtain ks vs where l: "Hash_fromSpec_loop rawPairs = Inr (ks, vs)" and h: "h = Hash ks vs"
    by (auto simp: Hash_fromSpec_def split: sum.splits)
  from decoded_expression_prettyPrint(3) [of rawPairs] l obtain d
    where "Hash_prettyPrint_forEach ks vs [] = Inr d" by blast
  with h show ?thesis by simp
qed

lemma decoded_args_prettyPrint:
  assumes "ParamsAndHash_fromSpec ps raw = Inr args"
  shows "\<exists>d. ParamsAndHash_prettyPrint args = Inr d"
proof -
  from assms obtain p h where p: "Params_fromSpec ps = Inr p" and h: "Hash_fromSpec raw = Inr h"
    and a: "args = ParamsAndHash p h"
    by (auto simp: ParamsAndHash_fromSpec_def split: sum.splits)
  from decoded_params_prettyPrint [OF p] obtain d1 where "Params_prettyPrint p = Inr d1" ..
  moreover from decoded_hash_prettyPrint [OF h] obtain d2 where "Hash_prettyPrint h = Inr d2" ..
  ultimately show ?thesis using a by (simp add: ParamsAndHash_prettyPrint_def)
qed

lemma decoded_statement_pretty:
  assumes "StatementNodes_fromSpec s children = Inr st"
  shows "has_prettyPrint st \<and> (\<exists>d. StatementSyntax_prettyPrint st = Inr d)"
proof (cases s)
  case (BlockSexp path ps raw t i)
  with assms obtain args where "ParamsAndHash_fromSpec ps raw = Inr args"
    and "st = Block path args (Templates_fromSpec t i children)"
    by (auto simp: Block_fromSpec_def split: sum.splits)
  moreover from decoded_args_prettyPrint [OF \<open>ParamsAndHash_fromSpec ps raw = Inr args\<close>]
  obtain d where "ParamsAndHash_prettyPrint args = Inr d" ..
  ultimately show ?thesis by (cases d) simp
next
  case (InlineSexp path ps raw trust)
  with assms obtain args where "ParamsAndHash_fromSpec ps raw = Inr args"
    and "st = Inline path trust args"
    by (auto simp: Inline_fromSpec_def split: sum.splits)
  moreover from decoded_args_prettyPrint [OF \<open>ParamsAndHash_fromSpec ps raw = Inr args\<close>]
  obtain d where "ParamsAndHash_prettyPrint args = Inr d" ..
  ultimately show ?thesis by (cases d) (simp add: Let_def)
next
  case (UnknownSexp path unsafe)
  with assms show ?thesis by (auto simp: Unknown_fromSpec_def Let_def)
next
  case (DynamicAttrSexp name v ns)
  with assms obtain x where "buildExpression v = Inr x" and "st = DynamicAttr (Some name) x ns"
    by (auto simp: DynamicAttr_fromSpec_def split: sum.splits)
  moreover from decoded_expression_prettyPrint(1) [of v] \<open>buildExpression v = Inr x\<close>
  obtain d where "ExpressionSyntax_prettyPrint x = Inr d" by blast
  ultimately show ?thesis by simp
next
  case (DynamicPropSexp name v ns)
  with assms obtain x where "buildExpression v = Inr x" and "st = DynamicProp name x"
    by (auto simp: DynamicProp_fromSpec_def split: sum.splits)
  moreover from decoded_expression_prettyPrint(1) [of v] \<open>buildExpression v = Inr x\<close>
  obtain d where "ExpressionSyntax_prettyPrint x = Inr d" by blast
  ultimately show ?thesis by simp
next
  case (ComponentSexp path attrs t i)
  with assms obtain h where "Hash_fromSpec attrs = Inr h"
    and "st = Component (Ref [path]) (Some h) (Templates_fromSpec t i children)"
    by (auto simp: Component_fromSpec_def split: sum.splits)
  moreover from decoded_hash_prettyPrint [OF \<open>Hash_fromSpec attrs = Inr h\<close>]
  obtain d where "Hash_prettyPrint h = Inr d" ..
  ultimately show ?thesis by simp
next
  case (TextSexp c)
  with assms show ?thesis by (auto simp: Text_fromSpec_def)
next
  case (CommentSexp c)
  with assms show ?thesis by (auto simp: Comment_fromSpec_def)
next
  case (OpenElementSexp c)
  with assms show ?thesis by (auto simp: OpenElement_fromSpec_def)
next
  case CloseElementSexp
  with assms show ?thesis by (auto simp: CloseElement_fromSpec_def)
next
  case (StaticAttrSexp name v ns)
  with assms show ?thesis by (auto simp: StaticAttr_fromSpec_def)
next
  case (OtherSexp t)
  with assms show ?thesis by simp
qed

lemma map_pretty_total:
  "(\<forall>s\<in>set sts. \<exists>d. pretty s = Inr d) \<Longrightarrow> \<exists>ds. map_pretty sts = Inr ds"
  by (induction sts) (auto split: sum.splits)

lemma map_pretty_shape:
  "map_pretty sts = Inr ds \<Longrightarrow>
   length ds = length sts \<and> (\<forall>i<length sts. pretty (sts ! i) = Inr (ds ! i))"
proof (induction sts arbitrary: ds)
  case Nil
  then show ?case by simp
next
  case (Cons s sts)
  from Cons.prems obtain d ds' where d: "pretty s = Inr d" and ds': "map_pretty sts = Inr ds'"
    and eq: "ds = d # ds'" by (auto split: sum.splits)
  from Cons.IH [OF ds'] d eq show ?case by (auto simp: nth_Cons split: nat.splits)
qed

lemma map_pretty_fails:
  "\<exists>s\<in>set sts. \<not> has_prettyPrint (stmt s) \<Longrightarrow> \<exists>e. map_pretty sts = Inl e"
proof (induction sts)
  case Nil
  then show ?case by simp
next
  case (Cons s sts)
  show ?case
  proof (cases "has_prettyPrint (stmt s)")
    case True
    with Cons.prems have "\<exists>s\<in>set sts. \<not> has_prettyPrint (stmt s)" by auto
    from Cons.IH [OF this] show ?thesis by (auto split: sum.splits)
  next
    case False
    then show ?thesis by (simp add: pretty_def)
  qed
qed

lemma map_template_pretty_total:
  "(\<forall>t\<in>set ts. \<exists>ds. map_pretty (statements t) = Inr ds) \<Longrightarrow> \<exists>dumps. map_template_pretty ts = Inr dumps"
  by (induction ts) (auto split: sum.splits)

lemma map_template_pretty_shape:
  "map_template_pretty ts = Inr dumps \<Longrightarrow>
   length dumps = length ts \<and> (\<forall>k<length ts. map_pretty (statements (ts ! k)) = Inr (dumps ! k))"
proof (induction ts arbitrary: dumps)
  case Nil
  then show ?case by simp
next
  case (Cons t ts)
  from Cons.prems obtain d ds where d: "map_pretty (statements t) = Inr d"
    and ds: "map_template_pretty ts = Inr ds" and eq: "dumps = d # ds"
    by (auto split: sum.splits)
  from Cons.IH [OF ds] d eq show ?case by (auto simp: nth_Cons split: nat.splits)
qed

lemma map_template_pretty_fails:
  "\<exists>t\<in>set ts. \<exists>s\<in>set (statements t). \<not> has_prettyPrint (stmt s) \<Longrightarrow>
   \<exists>e. map_template_pretty ts = Inl e"
proof (induction ts)
  case Nil
  then show ?case by simp
next
  case (Cons t ts)
  show ?case
  proof (cases "\<exists>s\<in>set (statements t). \<not> has_prettyPrint (stmt s)")
    case True
    from map_pretty_fails [OF this] show ?thesis by auto
  next
    case False
    with Cons.prems have "\<exists>t\<in>set ts. \<exists>s\<in>set (statements t). \<not> has_prettyPrint (stmt s)" by auto
    from Cons.IH [OF this] show ?thesis by (auto split: sum.splits)
  qed
qed

lemma decoded_statements_pretty:
  assumes "buildStatements sexps children = Inr built"
  shows "\<exists>ds. map_pretty built = Inr ds"
proof (rule map_pretty_total, rule ballI)
  fix s
  assume "s \<in> set built"
  then obtain i where i: "i < length built" and s: "s = built ! i"
    by (auto simp: in_set_conv_nth)
  from buildStatements_marks [OF assms] i obtain st
    where "StatementNodes_fromSpec (sexps ! i) children = Inr st" and "stmt (built ! i) = st"
    by auto
  with decoded_statement_pretty [of "sexps ! i" children st] s
  show "\<exists>d. pretty s = Inr d" by (auto simp: pretty_def)
qed

lemma decoded_templates_pretty:
  assumes "Template_fromSpec a heap specs = Inr (heap', r)"
  shows "\<exists>dumps. map_template_pretty (heap' a) = Inr dumps"
proof (rule map_template_pretty_total, rule ballI)
  fix t
  assume "t \<in> set (heap' a)"
  then obtain k where k: "k < length (heap' a)" and t: "t = heap' a ! k"
    by (auto simp: in_set_conv_nth)
  from k Template_fromSpec_shape(1) [OF assms] have "k < length specs" by simp
  from Template_fromSpec_shape(3) [OF assms this] obtain bs
    where "buildStatements (spec_statements (specs ! k)) (take k (heap' a)) = Inr bs"
      and "statements (heap' a ! k) = bs"
    by (auto simp: new_Template_sel)
  with decoded_statements_pretty t show "\<exists>ds. map_pretty (statements t) = Inr ds" by auto
qed

text \<open>Decoding \<open>example_specs\<close>: the template returned has no statement, and its dump
  holds the text of its sibling.\<close>

lemma example_specs_decoded:
  "\<exists>heap' t. Template_fromSpec 0 (\<lambda>a. []) example_specs = Inr (heap', Some t) \<and>
      statements t = [] \<and>
      Template_prettyPrint heap' t =
        Inr [[PrettyPrint ''append'' ''append-text'' (Some [PPValue (JsLit (LStr ''hi''))]) None None],
             []]"
  by (simp add: Template_fromSpec_def example_specs_def buildStatements_def Text_fromSpec_def
      new_Template_def Template_prettyPrint_def pretty_def BOUNDARY_CANDIDATES_def Let_def)

text \<open>Splitting the joined form of a path gives the path back when the path has a segment
  and no segment holds a dot.\<close>

lemma split_dot_dot_free: "dot_free s \<Longrightarrow> split_dot s = [s]"
  by (induction s) (auto simp: dot_free_def)

lemma split_dot_append: "dot_free s \<Longrightarrow> split_dot (s @ CHR ''.'' # rest) = s # split_dot rest"
  by (induction s) (auto simp: dot_free_def)

lemma split_dot_join_dot:
  "path \<noteq> [] \<Longrightarrow> list_all dot_free path \<Longrightarrow> split_dot (join_dot path) = path"
proof (induction path rule: join_dot.induct)
  case 1
  then show ?case by simp
next
  case (2 s)
  then show ?case by (simp add: split_dot_dot_free)
next
  case (3 s t ts)
  then show ?case by (simp add: split_dot_append)
qed

lemma map_intern: "map intern xs = xs"
  by (induction xs) (simp_all add: intern_def)

lemma internPath_join_dot:
  "path \<noteq> [] \<Longrightarrow> list_all dot_free path \<Longrightarrow> internPath (join_dot path) = path"
  by (simp add: internPath_def split_dot_join_dot map_intern)

text \<open>The \<^verbatim>\<open>dynamicAttr\<close> of the class body would build the attribute without its
  namespace; the function assigned to the prototype builds it with
  \<^verbatim>\<open>DynamicAttr.build(key, value, namespace)\<close>.\<close>

lemma declared_dynamicAttr_drops_namespace:
  "declared_dynamicAttr key v namespace = DynamicAttr key v None"
  by (simp add: declared_dynamicAttr_def DynamicAttr_build_def intern_def truthy_def)

text \<open>Decoding a tuple and building from its arguments give the same statement, for the
  tuples of \<open>parity_condition\<close>.\<close>

lemma fromSpec_eq_build:
  assumes "StatementNodes_fromSpec s children = Inr st" and "parity_condition s"
  shows "build_equivalent s children = Inr st"
proof (cases s)
  case (BlockSexp path ps raw t i)
  with assms show ?thesis
    by (auto simp: Block_fromSpec_def Block_build_def Templates_fromSpec_def Templates_build_def
        template_at_def split: sum.splits)
next
  case (InlineSexp path ps raw trust)
  with assms show ?thesis
    by (auto simp: Inline_fromSpec_def Inline_build_def internPath_join_dot split: sum.splits)
next
  case (UnknownSexp path unsafe)
  with assms show ?thesis
    by (auto simp: Unknown_fromSpec_def Unknown_build_def Ref_build_def internPath_join_dot)
next
  case (DynamicAttrSexp name v ns)
  with assms show ?thesis
    by (cases ns)
       (auto simp: DynamicAttr_fromSpec_def DynamicAttr_build_def intern_def truthy_def
          split: sum.splits)
next
  case (DynamicPropSexp name v ns)
  with assms show ?thesis
    by (auto simp: DynamicProp_fromSpec_def DynamicProp_build_def split: sum.splits)
next
  case (ComponentSexp path attrs t i)
  with assms have "internPath path = [path]"
    by (simp add: internPath_def split_dot_dot_free intern_def)
  with ComponentSexp assms show ?thesis
    by (auto simp: Component_fromSpec_def Component_build_def Ref_build_def Templates_fromSpec_def
        Templates_build_def template_at_def split: sum.splits)
next
  case (TextSexp c)
  with assms show ?thesis by (auto simp: Text_fromSpec_def Text_build_def)
next
  case (CommentSexp c)
  with assms show ?thesis by (auto simp: Comment_fromSpec_def Comment_build_def)
next
  case (OpenElementSexp c)
  with assms show ?thesis by (auto simp: OpenElement_fromSpec_def OpenElement_build_def)
next
  case CloseElementSexp
  with assms show ?thesis by (auto simp: CloseElement_fromSpec_def CloseElement_build_def)
next
  case (StaticAttrSexp name v ns)
  with assms show ?thesis
    by (cases ns) (auto simp: StaticAttr_fromSpec_def StaticAttr_build_def intern_def)
next
  case (OtherSexp t)
  with assms show ?thesis by simp
qed

text \<open>A component built without a hash has a \<^verbatim>\<open>null\<close> hash: with a helper and no
  definition for its path, evaluating it throws.\<close>

lemma Component_evaluate_null_hash:
  "getComponentDefinition frame (Ref_path ref) (Component ref None templates) = None \<Longrightarrow>
   hasHelper frame (Ref_path ref) \<Longrightarrow>
   Component_evaluate ref None templates stack frame = Inl (TypeError ''hash is null'')"
  by (simp add: Component_evaluate_def)

text \<open>The sources of the arguments evaluated from no params and the hash with the one
  entry \<^verbatim>\<open>a\<close>, a lookup of \<^verbatim>\<open>x\<close>: the evaluated params are the only source.\<close>

lemma EvaluatedParamsAndHash_sources_example:
  "sources (ParamsAndHash_evaluate example_frame
      (ParamsAndHash (Params_build []) (Hash_build (Some [(''a'', Get_build ''x'')])))) =
     [EvaluatedParams [] []]"
  by (simp add: Params_build_def Hash_build_def Get_build_def new_EvaluatedParamsAndHash_def
      addSource_def new_EvaluatedParams_def addSources_def)

subsection \<open>Hash lookup\<close>

text \<open>
  Claim C4. \<^verbatim>\<open>EvaluatedHash.at(key)\<close> visits the keys in insertion order and returns
  what the values array holds at the first index whose key equals the argument, so with
  a repeated key the first occurrence wins; it is the reference \<open>refs ! j\<close> whenever the
  values array reaches that index. For a key that is not among the keys it returns no
  reference. For the hash built from the keys \<^verbatim>\<open>a\<close>, \<^verbatim>\<open>b\<close> and the values 1, 2 and
  evaluated under any frame, \<^verbatim>\<open>at\<close> returns a reference that pulls 1 for \<^verbatim>\<open>a\<close> and one
  that pulls 2 for \<^verbatim>\<open>b\<close>, and none for \<^verbatim>\<open>c\<close>.
\<close>

theorem EvaluatedHash_at_first_match:
  "(key \<notin> set ks \<longrightarrow> EvaluatedHash_at (EvaluatedHash srcs refs ks) key = None) \<and>
   (\<forall>j. j < length ks \<and> ks ! j = key \<and> (\<forall>m<j. ks ! m \<noteq> key) \<longrightarrow>
        EvaluatedHash_at (EvaluatedHash srcs refs ks) key = nth_js refs j \<and>
        (j < length refs \<longrightarrow> EvaluatedHash_at (EvaluatedHash srcs refs ks) key = Some (refs ! j))) \<and>
   (let h = Hash_evaluate frame (Hash_build (Some [(''a'', Value (LNum 1)), (''b'', Value (LNum 2))]))
    in map_option (Reference_value env) (EvaluatedHash_at h ''a'') = Some (Inr (JsLit (LNum 1))) \<and>
       map_option (Reference_value env) (EvaluatedHash_at h ''b'') = Some (Inr (JsLit (LNum 2))) \<and>
       EvaluatedHash_at h ''c'' = None)"
proof (intro conjI allI impI)
  show "EvaluatedHash_at (EvaluatedHash srcs refs ks) key = None" if "key \<notin> set ks"
    using that by (simp add: EvaluatedHash_at_some_absent)
next
  fix j
  assume j: "j < length ks \<and> ks ! j = key \<and> (\<forall>m<j. ks ! m \<noteq> key)"
  then show at: "EvaluatedHash_at (EvaluatedHash srcs refs ks) key = nth_js refs j"
    using EvaluatedHash_at_some_first [of j ks key 0 refs] by simp
  show "EvaluatedHash_at (EvaluatedHash srcs refs ks) key = Some (refs ! j)" if "j < length refs"
    using at that by (simp add: nth_js_def)
next
  show "let h = Hash_evaluate frame (Hash_build (Some [(''a'', Value (LNum 1)), (''b'', Value (LNum 2))]))
    in map_option (Reference_value env) (EvaluatedHash_at h ''a'') = Some (Inr (JsLit (LNum 1))) \<and>
       map_option (Reference_value env) (EvaluatedHash_at h ''b'') = Some (Inr (JsLit (LNum 2))) \<and>
       EvaluatedHash_at h ''c'' = None"
    by (simp add: Hash_build_def new_EvaluatedHash_def nth_js_def)
qed

text \<open>The theorem at a hash with a repeated key: the keys \<^verbatim>\<open>a\<close>, \<^verbatim>\<open>b\<close>, \<^verbatim>\<open>a\<close> over the
  constant references 1, 2, 3. The first \<^verbatim>\<open>a\<close> wins, and \<^verbatim>\<open>z\<close> is absent.\<close>

theorem EvaluatedHash_at_first_match_witness:
  "EvaluatedHash_at
     (EvaluatedHash [] [ConstReference (LNum 1), ConstReference (LNum 2), ConstReference (LNum 3)]
        [''a'', ''b'', ''a'']) ''a'' = Some (ConstReference (LNum 1)) \<and>
   EvaluatedHash_at
     (EvaluatedHash [] [ConstReference (LNum 1), ConstReference (LNum 2), ConstReference (LNum 3)]
        [''a'', ''b'', ''a'']) ''b'' = Some (ConstReference (LNum 2)) \<and>
   EvaluatedHash_at
     (EvaluatedHash [] [ConstReference (LNum 1), ConstReference (LNum 2), ConstReference (LNum 3)]
        [''a'', ''b'', ''a'']) ''z'' = None"
proof -
  let ?refs = "[ConstReference (LNum 1), ConstReference (LNum 2), ConstReference (LNum 3)]"
  let ?ks = "[''a'', ''b'', ''a'']"
  note t = EvaluatedHash_at_first_match [where srcs = "[]" and refs = ?refs and ks = ?ks]
  have a: "EvaluatedHash_at (EvaluatedHash [] ?refs ?ks) ''a'' = Some (?refs ! 0)"
    using t [where key = "''a''", THEN conjunct2, THEN conjunct1, THEN spec, of 0] by simp
  have b: "EvaluatedHash_at (EvaluatedHash [] ?refs ?ks) ''b'' = Some (?refs ! 1)"
    using t [where key = "''b''", THEN conjunct2, THEN conjunct1, THEN spec, of 1] by simp
  have z: "EvaluatedHash_at (EvaluatedHash [] ?refs ?ks) ''z'' = None"
    using t [where key = "''z''"] by simp
  show ?thesis using a b z by simp
qed

subsection \<open>Sources of the composite argument references\<close>

text \<open>
  Claim C5. The claim is that every evaluated composite registers each child reference as
  a source, and that \<^verbatim>\<open>EvaluatedParamsAndHash\<close> registers both its params reference and
  its hash reference. The constructor of \<^verbatim>\<open>EvaluatedParamsAndHash\<close> passes only the
  params reference to \<^verbatim>\<open>_addSource\<close>: for every frame, params and hash, the sources of
  the evaluated pair are the evaluated params alone, and the evaluated hash is not among
  them. \<^verbatim>\<open>HelperInvocationReference\<close>, a few lines above, registers both its children.
\<close>

theorem EvaluatedParamsAndHash_sources:
  "sources (ParamsAndHash_evaluate frame (ParamsAndHash p h)) = [Params_evaluate frame p] \<and>
   Hash_evaluate frame h \<notin> set (sources (ParamsAndHash_evaluate frame (ParamsAndHash p h))) \<and>
   sources (new_HelperInvocationReference helper args) = [helper, args]"
  by (cases p; cases h)
     (simp add: new_EvaluatedParamsAndHash_def addSource_def new_EvaluatedParams_def
        new_EvaluatedHash_def new_HelperInvocationReference_def)

subsection \<open>Evaluating a \<^verbatim>\<open>Templates\<close> pairing\<close>

text \<open>
  Claim C8. Calling \<^verbatim>\<open>evaluate\<close> on a \<^verbatim>\<open>Templates\<close> pairing throws, whatever the pairing
  and whatever the frame.
\<close>

theorem Templates_evaluate_throws:
  "Templates_evaluate t frame = Inl (Error ''unimplemented evaluate for ExpressionSyntax'')"
  by (simp add: Templates_evaluate_def)

subsection \<open>Resolution of a component\<close>




subsection \<open>An unknown append\<close>

text \<open>
  Claim C6. \<^verbatim>\<open>Unknown.evaluate\<close> first asks the frame whether its path names a helper.
  If it does, the content is the invocation of that helper with the empty evaluated
  arguments, which pull to no params and an empty hash; otherwise the content is the
  value lookup of the path: the scope base of the first segment narrowed by each later
  segment. In both cases it creates exactly one render node, an \<^verbatim>\<open>InsertionMorph\<close> with
  that content and the trust flag of the statement, through one call of the builder.
\<close>

theorem Unknown_evaluate_content:
  "Unknown_evaluate ref trustingMorph stack frame =
     createContentMorph stack InsertionMorph
       (ContentOptions
          (if hasHelper frame (Ref_path ref)
           then HelperInvocationReference
                  [lookupHelper frame (Ref_path ref), EvaluatedParamsAndHash_empty]
                  (lookupHelper frame (Ref_path ref)) EvaluatedParamsAndHash_empty
           else foldl PathReference (getBase frame (nth_js (Ref_path ref) 0)) (drop 1 (Ref_path ref)))
          trustingMorph) \<and>
   Reference_value env EvaluatedParamsAndHash_empty =
     Inr (JsObject [(''params'', JsArray []), (''hash'', JsObject [])]) \<and>
   morphList (fst (Unknown_evaluate ref trustingMorph stack frame)) =
     morphList stack @ [snd (Unknown_evaluate ref trustingMorph stack frame)] \<and>
   calls (fst (Unknown_evaluate ref trustingMorph stack frame)) =
     calls stack @
       [case snd (Unknown_evaluate ref trustingMorph stack frame) of
          Morph kind options \<Rightarrow> CreateContentMorphCall kind options] \<and>
   StatementSyntax_evaluate (Unknown ref trustingMorph) stack frame =
     Inr (map_prod id Some (Unknown_evaluate ref trustingMorph stack frame))"
proof -
  have fold: "foldl Reference_get b segs = foldl PathReference b segs" for b segs
    by (induction segs arbitrary: b) (simp_all add: Reference_get_def)
  show ?thesis
    by (simp add: Unknown_evaluate_def Ref_isHelper_def Ref_path_def Ref_evaluate_def fold
        new_HelperInvocationReference_def addSource_def createContentMorph_def record_call_def
        EvaluatedParamsAndHash_empty_value Let_def)
qed

text \<open>The theorem at a path that names a helper of \<open>example_frame\<close> and at one that does
  not.\<close>

theorem Unknown_evaluate_content_witness:
  "Unknown_evaluate (Ref [''if'']) True example_stack example_frame =
     createContentMorph example_stack InsertionMorph
       (ContentOptions
          (HelperInvocationReference
             [PathReference (OpaqueReference 1) ''if'', EvaluatedParamsAndHash_empty]
             (PathReference (OpaqueReference 1) ''if'') EvaluatedParamsAndHash_empty) True) \<and>
   Unknown_evaluate (Ref [''user'', ''name'']) False example_stack example_frame =
     createContentMorph example_stack InsertionMorph
       (ContentOptions (PathReference (PathReference (OpaqueReference 0) ''user'') ''name'') False)"
  using Unknown_evaluate_content [THEN conjunct1, of "Ref [''if'']" True example_stack example_frame]
    Unknown_evaluate_content [THEN conjunct1, of "Ref [''user'', ''name'']" False example_stack example_frame]
  by (simp add: example_frame_def Ref_path_def nth_js_def)

subsection \<open>The attributes of a fallback node\<close>

text \<open>
  Claim C7. For every hash, \<^verbatim>\<open>FallbackMorph.init\<close> returns a node with one attribute for
  each value of the hash, in order: a static attribute holding the value pulled from the
  evaluated expression when the expression is static, a dynamic attribute holding the
  expression otherwise, each under the key at the same index and without a namespace. The
  node is the same whatever the values of the references are at that time or later.
  \<^verbatim>\<open>update\<close> returns the node unchanged and \<^verbatim>\<open>append\<close> leaves its attributes as
  \<^verbatim>\<open>init\<close> made them, so the conversion is never done again.
\<close>

theorem FallbackMorph_init_converts_once:
  "\<exists>m. FallbackMorph_init env frame path (Some (Hash ks vs)) template = Inr m \<and>
       (\<forall>env'. FallbackMorph_init env' frame path (Some (Hash ks vs)) template = Inr m) \<and>
       length (fallback_attrs m) = length vs \<and>
       (\<forall>i<length vs.
          (ExpressionSyntax_isStatic (vs ! i) \<longrightarrow>
             (\<exists>v. Reference_value env (ExpressionSyntax_evaluate frame (vs ! i)) = Inr v \<and>
                  fallback_attrs m ! i = StaticAttr (nth_js ks i) v None)) \<and>
          (\<not> ExpressionSyntax_isStatic (vs ! i) \<longrightarrow>
             fallback_attrs m ! i = DynamicAttr (nth_js ks i) (vs ! i) None)) \<and>
       FallbackMorph_update m = m \<and>
       (\<forall>st r. FallbackMorph_append m st = Inr r \<longrightarrow>
          fallback_attrs (fst r) = fallback_attrs m \<and>
          fallback_attrs (FallbackMorph_update (fst r)) = fallback_attrs m)"
proof -
  from FallbackMorph_init_forEach_total obtain attrs
    where attrs: "FallbackMorph_init_forEach env frame ks vs 0 = Inr attrs" by blast
  let ?m = "\<lparr>fallback_tag = nth_js path 0, fallback_template = template,
             fallback_element = None, fallback_attrs = attrs, fallback_frame = frame\<rparr>"
  have m: "FallbackMorph_init env frame path (Some (Hash ks vs)) template = Inr ?m"
    by (simp add: FallbackMorph_init_def attrs)
  have m': "FallbackMorph_init env' frame path (Some (Hash ks vs)) template = Inr ?m" for env'
    by (simp add: FallbackMorph_init_def attrs FallbackMorph_init_forEach_env [of env' frame ks vs 0 env])
  from FallbackMorph_init_forEach_attrs [OF attrs]
  have shape: "length (fallback_attrs ?m) = length vs \<and>
       (\<forall>i<length vs.
          (ExpressionSyntax_isStatic (vs ! i) \<longrightarrow>
             (\<exists>v. Reference_value env (ExpressionSyntax_evaluate frame (vs ! i)) = Inr v \<and>
                  fallback_attrs ?m ! i = StaticAttr (nth_js ks i) v None)) \<and>
          (\<not> ExpressionSyntax_isStatic (vs ! i) \<longrightarrow>
             fallback_attrs ?m ! i = DynamicAttr (nth_js ks i) (vs ! i) None))"
    by simp
  have upd: "FallbackMorph_update ?m = ?m" by (simp add: FallbackMorph_update_def)
  have app: "\<forall>st r. FallbackMorph_append ?m st = Inr r \<longrightarrow>
          fallback_attrs (fst r) = fallback_attrs ?m \<and>
          fallback_attrs (FallbackMorph_update (fst r)) = fallback_attrs ?m"
    using FallbackMorph_append_attrs [of ?m] by (simp add: FallbackMorph_update_def)
  from m m' shape upd app show ?thesis by blast
qed

text \<open>The theorem at \<open>example_hash\<close>: the static \<^verbatim>\<open>class\<close> is baked, \<^verbatim>\<open>title\<close> stays
  dynamic.\<close>

theorem FallbackMorph_init_converts_once_witness:
  "\<exists>m. FallbackMorph_init example_env example_frame [''y-bar''] (Some example_hash) None = Inr m \<and>
       fallback_tag m = Some ''y-bar'' \<and>
       fallback_attrs m =
         [StaticAttr (Some ''class'') (JsLit (LStr ''big'')) None,
          DynamicAttr (Some ''title'') (Get (Ref [''name''])) None] \<and>
       FallbackMorph_update m = m"
proof -
  from FallbackMorph_init_converts_once [of example_env example_frame "[''y-bar'']"
      "[''class'', ''title'']" "[Value (LStr ''big''), Get (Ref [''name''])]" None]
  obtain m where m: "FallbackMorph_init example_env example_frame [''y-bar'']
        (Some (Hash [''class'', ''title''] [Value (LStr ''big''), Get (Ref [''name''])])) None = Inr m"
    and upd: "FallbackMorph_update m = m"
    by blast
  have "FallbackMorph_init example_env example_frame [''y-bar'']
        (Some (Hash [''class'', ''title''] [Value (LStr ''big''), Get (Ref [''name''])])) None =
      Inr \<lparr>fallback_tag = Some ''y-bar'', fallback_template = None, fallback_element = None,
           fallback_attrs =
             [StaticAttr (Some ''class'') (JsLit (LStr ''big'')) None,
              DynamicAttr (Some ''title'') (Get (Ref [''name''])) None],
           fallback_frame = example_frame\<rparr>"
    by (simp add: FallbackMorph_init_def nth_js_def StaticAttr_build_def DynamicAttr_build_def
        intern_def truthy_def)
  with m have "m = \<lparr>fallback_tag = Some ''y-bar'', fallback_template = None, fallback_element = None,
           fallback_attrs =
             [StaticAttr (Some ''class'') (JsLit (LStr ''big'')) None,
              DynamicAttr (Some ''title'') (Get (Ref [''name''])) None],
           fallback_frame = example_frame\<rparr>"
    by simp
  with m upd show ?thesis by (simp add: example_hash_def)
qed

subsection \<open>The empty template\<close>

text \<open>
  Claim C9. When \<^verbatim>\<open>Template.fromSpec\<close> has decoded an array of specs, the template of
  every spec whose statements array is empty has \<^verbatim>\<open>isEmpty\<close> set and no statement; it is
  the template \<^verbatim>\<open>fromSpec\<close> returns when the spec is the last one. Evaluating it with
  any builder leaves the builder as it was, and \<^verbatim>\<open>evaluate\<close>, which starts from a fresh
  builder, returns a result with no render node after no call to the builder.
\<close>

theorem empty_template:
  "Template_fromSpec a heap specs = Inr (heap', r) \<and> i < length specs \<and>
   spec_statements (specs ! i) = [] \<longrightarrow>
     isEmpty (heap' a ! i) \<and> statements (heap' a ! i) = [] \<and>
     (Suc i = length specs \<longrightarrow> r = Some (heap' a ! i)) \<and>
     Template_evaluateWithStack (heap' a ! i) stack frame =
       Inr (stack, \<lparr>result_morphs = morphList stack, result_scope = scope frame,
                    result_bounds = bounds stack, result_template = heap' a ! i\<rparr>) \<and>
     (\<exists>stack' res. Template_evaluate (heap' a ! i) morph options = Inr (stack', res) \<and>
        calls stack' = [] \<and> morphList stack' = [] \<and> result_morphs res = [])"
proof (intro impI, elim conjE)
  assume dec: "Template_fromSpec a heap specs = Inr (heap', r)" and i: "i < length specs"
    and emp: "spec_statements (specs ! i) = []"
  from Template_fromSpec_shape(3) [OF dec i] emp
  have t: "heap' a ! i =
        new_Template (spec_meta (specs ! i)) (Some a) (Some i) (spec_locals (specs ! i))
          (Some []) (Some (specs ! i)) (Some True)"
    by (auto simp: buildStatements_Nil)
  have e: "isEmpty (heap' a ! i)" and s: "statements (heap' a ! i) = []"
    by (simp_all add: t new_Template_sel)
  have last: "r = Some (heap' a ! i)" if "Suc i = length specs"
  proof -
    from that i have "specs \<noteq> []" by auto
    moreover from that Template_fromSpec_shape(1) [OF dec]
    have "last (heap' a) = heap' a ! i"
      by (metis diff_Suc_1 last_conv_nth length_0_conv nat.simps(3))
    ultimately show ?thesis using Template_fromSpec_shape(2) [OF dec] by simp
  qed
  have ws: "Template_evaluateWithStack (heap' a ! i) st fr =
       Inr (st, \<lparr>result_morphs = morphList st, result_scope = scope fr,
                    result_bounds = bounds st, result_template = heap' a ! i\<rparr>)" for st fr
    by (simp add: Template_evaluateWithStack_def s)
  have ev: "\<exists>stack' res. Template_evaluate (heap' a ! i) morph options = Inr (stack', res) \<and>
        calls stack' = [] \<and> morphList stack' = [] \<and> result_morphs res = []"
    by (cases options; cases "option_handler (the options)")
       (simp_all add: Template_evaluate_def ws new_ElementStack_def addTopLevelHandler_def Let_def)
  from e s last ws ev
  show "isEmpty (heap' a ! i) \<and> statements (heap' a ! i) = [] \<and>
     (Suc i = length specs \<longrightarrow> r = Some (heap' a ! i)) \<and>
     Template_evaluateWithStack (heap' a ! i) stack frame =
       Inr (stack, \<lparr>result_morphs = morphList stack, result_scope = scope frame,
                    result_bounds = bounds stack, result_template = heap' a ! i\<rparr>) \<and>
     (\<exists>stack' res. Template_evaluate (heap' a ! i) morph options = Inr (stack', res) \<and>
        calls stack' = [] \<and> morphList stack' = [] \<and> result_morphs res = [])"
    by blast
qed

text \<open>The theorem at \<open>example_specs\<close>, whose last spec has no statement.\<close>

theorem empty_template_witness:
  "\<exists>heap' t. Template_fromSpec 0 (\<lambda>a. []) example_specs = Inr (heap', Some t) \<and>
      isEmpty t \<and> statements t = [] \<and>
      (\<exists>stack' res. Template_evaluate t example_morph None = Inr (stack', res) \<and>
         calls stack' = [] \<and> morphList stack' = [] \<and> result_morphs res = [])"
proof -
  have "\<exists>heap' r. Template_fromSpec 0 (\<lambda>a. []) example_specs = Inr (heap', r)"
    by (simp add: Template_fromSpec_def example_specs_def buildStatements_def Text_fromSpec_def)
  then obtain heap' r where dec: "Template_fromSpec 0 (\<lambda>a. []) example_specs = Inr (heap', r)"
    by blast
  have i: "1 < length example_specs" and e: "spec_statements (example_specs ! 1) = []"
    by (simp_all add: example_specs_def)
  note t = empty_template [of 0 "\<lambda>a. []" example_specs heap' r 1 _ _ example_morph None,
      rule_format, OF conjI [OF dec conjI [OF i e]]]
  from t have r: "r = Some (heap' 0 ! 1)" by (simp add: example_specs_def)
  from t dec r show ?thesis by blast
qed

subsection \<open>Boundary marking\<close>

text \<open>
  Claim C3, as the code has it. The claim is that a template built by decoding or built
  from statements has \<^verbatim>\<open>frontBoundary\<close> on its first statement exactly when that
  statement is a block, inline, unknown or component, \<^verbatim>\<open>backBoundary\<close> on its last
  statement under the same condition, and no other mark. That holds for
  \<^verbatim>\<open>buildStatements\<close> and so for every template \<^verbatim>\<open>Template.fromSpec\<close> decodes: a
  statement has \<^verbatim>\<open>frontBoundary\<close> exactly when it is the first and of such a type, and
  \<^verbatim>\<open>backBoundary\<close> exactly when it is the last and of such a type.
  \<^verbatim>\<open>Template.fromStatements\<close> marks nothing: it keeps the statements with the marks they
  were given, and the template of a \<^verbatim>\<open>TemplateBuilder\<close> holds the statements as they were
  pushed.
\<close>

theorem boundaries_marked_when_decoding:
  "(buildStatements sexps children = Inr built \<longrightarrow>
      length built = length sexps \<and>
      (\<forall>i<length built.
         StatementSyntax_type (stmt (built ! i)) \<in> set BOUNDARY_CANDIDATES =
           (statement_tag (sexps ! i) \<in> set BOUNDARY_CANDIDATES) \<and>
         frontBoundary (built ! i) =
           (i = 0 \<and> StatementSyntax_type (stmt (built ! i)) \<in> set BOUNDARY_CANDIDATES) \<and>
         backBoundary (built ! i) =
           (Suc i = length built \<and> StatementSyntax_type (stmt (built ! i)) \<in> set BOUNDARY_CANDIDATES))) \<and>
   (Template_fromSpec a heap specs = Inr (heap', r) \<and> k < length specs \<longrightarrow>
      length (statements (heap' a ! k)) = length (spec_statements (specs ! k)) \<and>
      (\<forall>i<length (statements (heap' a ! k)).
         frontBoundary (statements (heap' a ! k) ! i) =
           (i = 0 \<and>
            StatementSyntax_type (stmt (statements (heap' a ! k) ! i)) \<in> set BOUNDARY_CANDIDATES) \<and>
         backBoundary (statements (heap' a ! k) ! i) =
           (Suc i = length (statements (heap' a ! k)) \<and>
            StatementSyntax_type (stmt (statements (heap' a ! k) ! i)) \<in> set BOUNDARY_CANDIDATES))) \<and>
   statements (Template_fromStatements sts) = sts \<and>
   statements (TemplateBuilder_template b) = builder_statements b"
proof -
  have marks: "length bs = length sx \<and>
      (\<forall>i<length bs.
         StatementSyntax_type (stmt (bs ! i)) \<in> set BOUNDARY_CANDIDATES =
           (statement_tag (sx ! i) \<in> set BOUNDARY_CANDIDATES) \<and>
         frontBoundary (bs ! i) =
           (i = 0 \<and> StatementSyntax_type (stmt (bs ! i)) \<in> set BOUNDARY_CANDIDATES) \<and>
         backBoundary (bs ! i) =
           (Suc i = length bs \<and> StatementSyntax_type (stmt (bs ! i)) \<in> set BOUNDARY_CANDIDATES))"
    if b: "buildStatements sx ch = Inr bs" for sx ch bs
  proof -
    note m = buildStatements_marks [OF b]
    show ?thesis
    proof (intro conjI allI impI)
      show "length bs = length sx" using m by simp
    next
      fix i
      assume "i < length bs"
      with m have i: "i < length sx" by simp
      with m obtain st where st: "StatementNodes_fromSpec (sx ! i) ch = Inr st"
        and si: "stmt (bs ! i) = st" by blast
      from StatementNodes_fromSpec_type [OF st] si
      show ty: "StatementSyntax_type (stmt (bs ! i)) \<in> set BOUNDARY_CANDIDATES =
           (statement_tag (sx ! i) \<in> set BOUNDARY_CANDIDATES)" by simp
      show "frontBoundary (bs ! i) =
           (i = 0 \<and> StatementSyntax_type (stmt (bs ! i)) \<in> set BOUNDARY_CANDIDATES)"
        using m i ty by auto
      show "backBoundary (bs ! i) =
           (Suc i = length bs \<and> StatementSyntax_type (stmt (bs ! i)) \<in> set BOUNDARY_CANDIDATES)"
        using m i ty by auto
    qed
  qed
  have dec: "length (statements (heap' a ! k)) = length (spec_statements (specs ! k)) \<and>
      (\<forall>i<length (statements (heap' a ! k)).
         frontBoundary (statements (heap' a ! k) ! i) =
           (i = 0 \<and>
            StatementSyntax_type (stmt (statements (heap' a ! k) ! i)) \<in> set BOUNDARY_CANDIDATES) \<and>
         backBoundary (statements (heap' a ! k) ! i) =
           (Suc i = length (statements (heap' a ! k)) \<and>
            StatementSyntax_type (stmt (statements (heap' a ! k) ! i)) \<in> set BOUNDARY_CANDIDATES))"
    if d: "Template_fromSpec a heap specs = Inr (heap', r)" and k: "k < length specs"
  proof -
    from Template_fromSpec_shape(3) [OF d k] obtain bs
      where bs: "buildStatements (spec_statements (specs ! k)) (take k (heap' a)) = Inr bs"
        and t: "statements (heap' a ! k) = bs"
      by (auto simp: new_Template_sel)
    from marks [OF bs] t show ?thesis by simp
  qed
  have fs: "statements (Template_fromStatements sts) = sts" for sts
    by (simp add: Template_fromStatements_def new_Template_sel)
  from marks dec fs show ?thesis
    by (simp add: TemplateBuilder_template_def)
qed

text \<open>The theorem at \<open>example_sexps\<close>: the inline append at the front is marked, nothing
  else is.\<close>

theorem boundaries_marked_when_decoding_witness:
  "\<exists>built. buildStatements example_sexps [] = Inr built \<and> length built = 3 \<and>
      frontBoundary (built ! 0) \<and> \<not> frontBoundary (built ! 1) \<and> \<not> frontBoundary (built ! 2) \<and>
      \<not> backBoundary (built ! 0) \<and> \<not> backBoundary (built ! 1) \<and> \<not> backBoundary (built ! 2)"
proof -
  have "\<exists>built. buildStatements example_sexps [] = Inr built"
    by (simp add: buildStatements_def example_sexps_def Inline_fromSpec_def
        ParamsAndHash_fromSpec_def Params_fromSpec_def Hash_fromSpec_def Text_fromSpec_def
        Let_def)
  then obtain built where b: "buildStatements example_sexps [] = Inr built" by blast
  note t = boundaries_marked_when_decoding [THEN conjunct1, rule_format, OF b]
  from t have len: "length built = 3" by (simp add: example_sexps_def)
  from t len have
    "frontBoundary (built ! 0) = (statement_tag (example_sexps ! 0) \<in> set BOUNDARY_CANDIDATES)"
    "frontBoundary (built ! 1) = False" "frontBoundary (built ! 2) = False"
    "backBoundary (built ! 0) = False" "backBoundary (built ! 1) = False"
    "backBoundary (built ! 2) = (statement_tag (example_sexps ! 2) \<in> set BOUNDARY_CANDIDATES)"
    by simp_all
  with b len show ?thesis
    by (simp add: example_sexps_def BOUNDARY_CANDIDATES_def)
qed

text \<open>The claim fails for a template built from statements: a builder that was given
  one inline append makes a template whose only statement is of type \<^verbatim>\<open>inline\<close> and has
  neither boundary mark.\<close>

theorem fromStatements_marks_no_boundary:
  "StatementSyntax_type
     (stmt (statements (TemplateBuilder_template
        (TemplateBuilder_inline new_TemplateBuilder ''foo'' ParamsAndHash_empty False)) ! 0)) = ''inline'' \<and>
   \<not> frontBoundary
     (statements (TemplateBuilder_template
        (TemplateBuilder_inline new_TemplateBuilder ''foo'' ParamsAndHash_empty False)) ! 0) \<and>
   \<not> backBoundary
     (statements (TemplateBuilder_template
        (TemplateBuilder_inline new_TemplateBuilder ''foo'' ParamsAndHash_empty False)) ! 0) \<and>
   length (statements (TemplateBuilder_template
        (TemplateBuilder_inline new_TemplateBuilder ''foo'' ParamsAndHash_empty False))) = 1"
  by (simp add: TemplateBuilder_template_def TemplateBuilder_inline_def TemplateBuilder_push_def
      new_TemplateBuilder_def Template_fromStatements_def new_Template_def Inline_build_def)

subsection \<open>Pretty printing a template\<close>

text \<open>
  Claim C10. \<^verbatim>\<open>Template.prettyPrint\<close> maps over the array its root points to. On a
  template with a \<^verbatim>\<open>null\<close> root it throws, and \<^verbatim>\<open>Template.fromStatements\<close> makes such a
  template. On a template with a root, a dump it returns has one entry for every template
  of the root array, siblings included, and the entry of a template holds the dump of
  each of its statements in order; when a statement of any template of the array has no
  \<^verbatim>\<open>prettyPrint\<close> method, it throws. The template \<^verbatim>\<open>Template.fromSpec\<close> returns has the
  decoded array as its root, and pretty printing it returns a dump with one entry for
  each spec.
\<close>

theorem Template_prettyPrint_root:
  "(root t = None \<longrightarrow> Template_prettyPrint heap t = Inl (TypeError ''cannot read map of null'')) \<and>
   root (Template_fromStatements sts) = None \<and>
   (\<forall>a. root t = Some a \<longrightarrow>
      (\<forall>dumps. Template_prettyPrint heap t = Inr dumps \<longrightarrow>
         length dumps = length (heap a) \<and>
         (\<forall>k<length (heap a).
            length (dumps ! k) = length (statements (heap a ! k)) \<and>
            (\<forall>i<length (statements (heap a ! k)).
               pretty (statements (heap a ! k) ! i) = Inr (dumps ! k ! i)))) \<and>
      ((\<exists>t'\<in>set (heap a). \<exists>s\<in>set (statements t'). \<not> has_prettyPrint (stmt s)) \<longrightarrow>
         (\<exists>e. Template_prettyPrint heap t = Inl e))) \<and>
   (\<forall>heap' t'. Template_fromSpec a0 heap0 specs = Inr (heap', Some t') \<longrightarrow>
      root t' = Some a0 \<and> t' = last (heap' a0) \<and> length (heap' a0) = length specs \<and>
      (\<exists>dumps. Template_prettyPrint heap' t' = Inr dumps \<and> length dumps = length specs))"
proof (intro conjI allI impI)
  show "Template_prettyPrint heap t = Inl (TypeError ''cannot read map of null'')" if "root t = None"
    using that by (simp add: Template_prettyPrint_def)
  show "root (Template_fromStatements sts) = None"
    by (simp add: Template_fromStatements_def new_Template_sel)
next
  fix a dumps
  assume r: "root t = Some a" and d: "Template_prettyPrint heap t = Inr dumps"
  then have m: "map_template_pretty (heap a) = Inr dumps"
    by (simp add: Template_prettyPrint_def)
  note sh = map_template_pretty_shape [OF m]
  from sh show "length dumps = length (heap a)" by simp
  fix k
  assume k: "k < length (heap a)"
  with sh have mk: "map_pretty (statements (heap a ! k)) = Inr (dumps ! k)" by simp
  note shk = map_pretty_shape [OF mk]
  from shk show "length (dumps ! k) = length (statements (heap a ! k))" by simp
  fix i
  assume "i < length (statements (heap a ! k))"
  with shk show "pretty (statements (heap a ! k) ! i) = Inr (dumps ! k ! i)" by simp
next
  fix a
  assume r: "root t = Some a"
    and "\<exists>t'\<in>set (heap a). \<exists>s\<in>set (statements t'). \<not> has_prettyPrint (stmt s)"
  from map_template_pretty_fails [OF this(2)] r
  show "\<exists>e. Template_prettyPrint heap t = Inl e"
    by (simp add: Template_prettyPrint_def)
next
  fix heap' t'
  assume dec: "Template_fromSpec a0 heap0 specs = Inr (heap', Some t')"
  note len = Template_fromSpec_shape(1) [OF dec]
  from Template_fromSpec_shape(2) [OF dec] have ne: "specs \<noteq> []" and t': "t' = last (heap' a0)"
    by (auto split: if_splits)
  from ne have k: "length specs - 1 < length specs" by simp
  from len ne have "heap' a0 \<noteq> []" by auto
  with len t' have "t' = heap' a0 ! (length specs - 1)"
    by (simp add: last_conv_nth)
  with Template_fromSpec_shape(3) [OF dec k] show rt: "root t' = Some a0"
    by (auto simp: new_Template_sel)
  show "t' = last (heap' a0)" by (rule t')
  show "length (heap' a0) = length specs" by (rule len)
  from decoded_templates_pretty [OF dec] obtain dumps
    where d: "map_template_pretty (heap' a0) = Inr dumps" ..
  from map_template_pretty_shape [OF d] len rt d
  show "\<exists>dumps. Template_prettyPrint heap' t' = Inr dumps \<and> length dumps = length specs"
    by (simp add: Template_prettyPrint_def)
qed

text \<open>The theorem at the template decoded from \<open>example_specs\<close> (it has no statement of
  its own, and its dump holds the text of the other template), at a template built from
  statements, and at \<open>foreign_template\<close>.\<close>

theorem Template_prettyPrint_root_witness:
  "(\<exists>heap' t. Template_fromSpec 0 (\<lambda>a. []) example_specs = Inr (heap', Some t) \<and>
      statements t = [] \<and> root t = Some 0 \<and> length (heap' 0) = 2 \<and>
      Template_prettyPrint heap' t =
        Inr [[PrettyPrint ''append'' ''append-text'' (Some [PPValue (JsLit (LStr ''hi''))]) None None],
             []]) \<and>
   Template_prettyPrint (\<lambda>a. []) (Template_fromStatements [Statement (Text ''hi'') False False]) =
     Inl (TypeError ''cannot read map of null'') \<and>
   (\<exists>e. Template_prettyPrint (\<lambda>a. [foreign_template]) foreign_template = Inl e)"
proof -
  from example_specs_decoded obtain heap' t
    where dec: "Template_fromSpec 0 (\<lambda>a. []) example_specs = Inr (heap', Some t)"
      and st: "statements t = []"
      and pp: "Template_prettyPrint heap' t =
        Inr [[PrettyPrint ''append'' ''append-text'' (Some [PPValue (JsLit (LStr ''hi''))]) None None],
             []]"
    by blast
  note last = Template_prettyPrint_root [THEN conjunct2, THEN conjunct2, THEN conjunct2, rule_format,
      OF dec]
  from last have r: "root t = Some 0" and len: "length (heap' 0) = 2"
    by (auto simp: example_specs_def)
  have none: "root (Template_fromStatements [Statement (Text ''hi'') False False]) = None"
    using Template_prettyPrint_root [THEN conjunct2, THEN conjunct1] .
  have two: "Template_prettyPrint (\<lambda>a. [])
      (Template_fromStatements [Statement (Text ''hi'') False False]) =
     Inl (TypeError ''cannot read map of null'')"
    using Template_prettyPrint_root [THEN conjunct1, rule_format, OF none] .
  have fr: "root foreign_template = Some 0"
    by (simp add: foreign_template_def new_Template_sel)
  have "\<exists>t'\<in>set [foreign_template]. \<exists>s\<in>set (statements t'). \<not> has_prettyPrint (stmt s)"
    by (simp add: foreign_template_def new_Template_sel)
  with Template_prettyPrint_root [where t = foreign_template and heap = "\<lambda>a. [foreign_template]",
      THEN conjunct2, THEN conjunct2, THEN conjunct1, rule_format, OF fr]
  have three: "\<exists>e. Template_prettyPrint (\<lambda>a. [foreign_template]) foreign_template = Inl e"
    by blast
  from dec st pp r len two three show ?thesis by blast
qed

subsection \<open>Decoding and building\<close>

text \<open>
  Claim C1, as the code has it. The claim is that for every statement kind the statement
  decoded from a wire tuple and the statement built from the equivalent arguments behave
  the same under \<^verbatim>\<open>evaluate\<close>, in particular a dynamic attribute with a namespace pushed
  through \<^verbatim>\<open>TemplateBuilder.dynamicAttr\<close>. It holds for every tuple that decodes, of every
  statement kind, under these conditions: the path of an inline or unknown append has a
  segment and no segment holds a dot, the name of a component holds no dot, and the
  namespace of a dynamic attribute is not the empty string. Then \<^verbatim>\<open>build\<close> returns the very
  statement \<^verbatim>\<open>fromSpec\<close> returns, so \<^verbatim>\<open>evaluate\<close> does the same with both against any
  builder and frame. The \<^verbatim>\<open>dynamicAttr\<close> a \<^verbatim>\<open>TemplateBuilder\<close> runs pushes the statement
  \<^verbatim>\<open>DynamicAttr.build\<close> makes of the key, the value and the namespace, which is the
  decoded statement when the namespace is absent or not empty.
\<close>

theorem fromSpec_build_parity:
  "(StatementNodes_fromSpec s children = Inr st \<and> parity_condition s \<longrightarrow>
      (\<exists>st'. build_equivalent s children = Inr st' \<and> st' = st \<and>
             StatementSyntax_evaluate st' stack frame = StatementSyntax_evaluate st stack frame)) \<and>
   (DynamicAttr_fromSpec name v namespace = Inr st \<and> buildExpression v = Inr x \<and>
    namespace \<noteq> Some [] \<longrightarrow>
      builder_statements (TemplateBuilder_dynamicAttr b (Some name) x namespace) =
        builder_statements b @ [Statement st False False] \<and>
      st = DynamicAttr (Some name) x namespace)"
proof (intro conjI impI)
  assume "StatementNodes_fromSpec s children = Inr st \<and> parity_condition s"
  then have "build_equivalent s children = Inr st" by (auto intro: fromSpec_eq_build)
  then show "\<exists>st'. build_equivalent s children = Inr st' \<and> st' = st \<and>
             StatementSyntax_evaluate st' stack frame = StatementSyntax_evaluate st stack frame"
    by simp
next
  assume a: "DynamicAttr_fromSpec name v namespace = Inr st \<and> buildExpression v = Inr x \<and>
    namespace \<noteq> Some []"
  then show st: "st = DynamicAttr (Some name) x namespace"
    by (auto simp: DynamicAttr_fromSpec_def)
  from a have "DynamicAttr_build (Some name) x namespace = DynamicAttr (Some name) x namespace"
    by (cases namespace) (auto simp: DynamicAttr_build_def intern_def truthy_def)
  with st show "builder_statements (TemplateBuilder_dynamicAttr b (Some name) x namespace) =
        builder_statements b @ [Statement st False False]"
    by (simp add: TemplateBuilder_dynamicAttr_def TemplateBuilder_push_def)
qed

text \<open>The theorem at a dynamic attribute with the namespace \<^verbatim>\<open>xlink\<close> and at the component
  \<^verbatim>\<open>x-foo\<close> with one attribute.\<close>

theorem fromSpec_build_parity_witness:
  "StatementNodes_fromSpec (DynamicAttrSexp ''href'' (GetSexp [''url'']) (Some ''xlink'')) [] =
     Inr (DynamicAttr (Some ''href'') (Get (Ref [''url''])) (Some ''xlink'')) \<and>
   build_equivalent (DynamicAttrSexp ''href'' (GetSexp [''url'']) (Some ''xlink'')) [] =
     Inr (DynamicAttr (Some ''href'') (Get (Ref [''url''])) (Some ''xlink'')) \<and>
   builder_statements
     (TemplateBuilder_dynamicAttr new_TemplateBuilder (Some ''href'') (Get (Ref [''url'']))
        (Some ''xlink'')) =
     [Statement (DynamicAttr (Some ''href'') (Get (Ref [''url''])) (Some ''xlink'')) False False] \<and>
   build_equivalent
     (ComponentSexp ''x-foo'' (Some [(''class'', LiteralSexp (LStr ''big''))]) None None) [] =
     Inr (Component (Ref [''x-foo'']) (Some (Hash [''class''] [Value (LStr ''big'')]))
            (Templates None None))"
proof -
  let ?a = "DynamicAttrSexp ''href'' (GetSexp [''url'']) (Some ''xlink'')"
  let ?c = "ComponentSexp ''x-foo'' (Some [(''class'', LiteralSexp (LStr ''big''))]) None None"
  have fa: "StatementNodes_fromSpec ?a [] =
      Inr (DynamicAttr (Some ''href'') (Get (Ref [''url''])) (Some ''xlink''))"
    by (simp add: DynamicAttr_fromSpec_def)
  have pa: "parity_condition ?a" by simp
  have fc: "StatementNodes_fromSpec ?c [] =
      Inr (Component (Ref [''x-foo'']) (Some (Hash [''class''] [Value (LStr ''big'')]))
             (Templates None None))"
    by (simp add: Component_fromSpec_def Hash_fromSpec_def Templates_fromSpec_def)
  have pc: "parity_condition ?c" by (simp add: dot_free_def)
  from fromSpec_build_parity [THEN conjunct1, rule_format, OF conjI [OF fa pa]]
  have ba: "build_equivalent ?a [] =
      Inr (DynamicAttr (Some ''href'') (Get (Ref [''url''])) (Some ''xlink''))"
    by simp
  from fromSpec_build_parity [THEN conjunct1, rule_format, OF conjI [OF fc pc]]
  have bc: "build_equivalent ?c [] =
      Inr (Component (Ref [''x-foo'']) (Some (Hash [''class''] [Value (LStr ''big'')]))
             (Templates None None))"
    by simp
  have da: "DynamicAttr_fromSpec ''href'' (GetSexp [''url'']) (Some ''xlink'') =
      Inr (DynamicAttr (Some ''href'') (Get (Ref [''url''])) (Some ''xlink''))"
    by (simp add: DynamicAttr_fromSpec_def)
  have ex: "buildExpression (GetSexp [''url'']) = Inr (Get (Ref [''url'']))" by simp
  have ns: "Some ''xlink'' \<noteq> Some []" by simp
  from fromSpec_build_parity [THEN conjunct2, rule_format, OF conjI [OF da conjI [OF ex ns]],
      of new_TemplateBuilder]
  have tb: "builder_statements
     (TemplateBuilder_dynamicAttr new_TemplateBuilder (Some ''href'') (Get (Ref [''url'']))
        (Some ''xlink'')) =
     [Statement (DynamicAttr (Some ''href'') (Get (Ref [''url''])) (Some ''xlink'')) False False]"
    by (simp add: new_TemplateBuilder_def)
  from fa ba tb bc show ?thesis by simp
qed

text \<open>The claim fails without the conditions. The component named \<^verbatim>\<open>a.b\<close> decodes to the
  one-segment path \<^verbatim>\<open>a.b\<close> and builds to the path \<^verbatim>\<open>a\<close>, \<^verbatim>\<open>b\<close>: under a frame that knows
  neither, the fallback nodes are created from different paths and get the tags \<^verbatim>\<open>a.b\<close>
  and \<^verbatim>\<open>a\<close>. A dynamic attribute with the empty namespace keeps it when decoded and loses
  it when built. An inline append whose one segment is \<^verbatim>\<open>a.b\<close> looks up the helper
  \<^verbatim>\<open>a.b\<close> when decoded and the helper \<^verbatim>\<open>a\<close>, \<^verbatim>\<open>b\<close> when built. An unknown append with the
  empty path builds to a path of one empty segment.\<close>

theorem fromSpec_build_parity_counterexample:
  "StatementNodes_fromSpec (ComponentSexp ''a.b'' None None None) [] =
     Inr (Component (Ref [''a.b'']) (Some (Hash [] [])) (Templates None None)) \<and>
   build_equivalent (ComponentSexp ''a.b'' None None None) [] =
     Inr (Component (Ref [''a'', ''b'']) (Some (Hash [] [])) (Templates None None)) \<and>
   StatementSyntax_evaluate (Component (Ref [''a.b'']) (Some (Hash [] [])) (Templates None None))
       example_stack example_frame \<noteq>
     StatementSyntax_evaluate (Component (Ref [''a'', ''b'']) (Some (Hash [] [])) (Templates None None))
       example_stack example_frame \<and>
   map_sum id fallback_tag
       (FallbackMorph_init example_env example_frame [''a.b''] (Some (Hash [] [])) None) =
     Inr (Some ''a.b'') \<and>
   map_sum id fallback_tag
       (FallbackMorph_init example_env example_frame [''a'', ''b''] (Some (Hash [] [])) None) =
     Inr (Some ''a'') \<and>
   StatementNodes_fromSpec (DynamicAttrSexp ''href'' (LiteralSexp (LStr ''x'')) (Some [])) [] =
     Inr (DynamicAttr (Some ''href'') (Value (LStr ''x'')) (Some [])) \<and>
   build_equivalent (DynamicAttrSexp ''href'' (LiteralSexp (LStr ''x'')) (Some [])) [] =
     Inr (DynamicAttr (Some ''href'') (Value (LStr ''x'')) None) \<and>
   StatementSyntax_evaluate (DynamicAttr (Some ''href'') (Value (LStr ''x'')) (Some []))
       example_stack example_frame \<noteq>
     StatementSyntax_evaluate (DynamicAttr (Some ''href'') (Value (LStr ''x'')) None)
       example_stack example_frame \<and>
   StatementNodes_fromSpec (InlineSexp [''a.b''] None None False) [] =
     Inr (Inline [''a.b''] False (ParamsAndHash (Params []) (Hash [] []))) \<and>
   build_equivalent (InlineSexp [''a.b''] None None False) [] =
     Inr (Inline [''a'', ''b''] False (ParamsAndHash (Params []) (Hash [] []))) \<and>
   StatementSyntax_evaluate (Inline [''a.b''] False (ParamsAndHash (Params []) (Hash [] [])))
       example_stack example_frame \<noteq>
     StatementSyntax_evaluate (Inline [''a'', ''b''] False (ParamsAndHash (Params []) (Hash [] [])))
       example_stack example_frame \<and>
   StatementNodes_fromSpec (UnknownSexp [] False) [] = Inr (Unknown (Ref []) False) \<and>
   build_equivalent (UnknownSexp [] False) [] = Inr (Unknown (Ref [[]]) False) \<and>
   StatementSyntax_evaluate (Unknown (Ref []) False) example_stack example_frame \<noteq>
     StatementSyntax_evaluate (Unknown (Ref [[]]) False) example_stack example_frame"
proof -
  have c1: "StatementNodes_fromSpec (ComponentSexp ''a.b'' None None None) [] =
     Inr (Component (Ref [''a.b'']) (Some (Hash [] [])) (Templates None None))"
    by (simp add: Component_fromSpec_def Hash_fromSpec_def Hash_empty_def Templates_fromSpec_def)
  have c2: "build_equivalent (ComponentSexp ''a.b'' None None None) [] =
     Inr (Component (Ref [''a'', ''b'']) (Some (Hash [] [])) (Templates None None))"
    by (simp add: Component_build_def Hash_fromSpec_def Hash_empty_def Templates_build_def
        template_at_def Ref_build_def internPath_def intern_def)
  have c3: "StatementSyntax_evaluate (Component (Ref [''a.b'']) (Some (Hash [] [])) (Templates None None))
       example_stack example_frame \<noteq>
     StatementSyntax_evaluate (Component (Ref [''a'', ''b'']) (Some (Hash [] [])) (Templates None None))
       example_stack example_frame"
    by (simp add: Component_evaluate_def example_frame_def Ref_path_def createContentMorph_def
        record_call_def Let_def)
  have c4: "map_sum id fallback_tag
       (FallbackMorph_init example_env example_frame [''a.b''] (Some (Hash [] [])) None) =
     Inr (Some ''a.b'')"
    by (simp add: FallbackMorph_init_def nth_js_def)
  have c5: "map_sum id fallback_tag
       (FallbackMorph_init example_env example_frame [''a'', ''b''] (Some (Hash [] [])) None) =
     Inr (Some ''a'')"
    by (simp add: FallbackMorph_init_def nth_js_def)
  have d1: "StatementNodes_fromSpec (DynamicAttrSexp ''href'' (LiteralSexp (LStr ''x'')) (Some [])) [] =
     Inr (DynamicAttr (Some ''href'') (Value (LStr ''x'')) (Some []))"
    by (simp add: DynamicAttr_fromSpec_def)
  have d2: "build_equivalent (DynamicAttrSexp ''href'' (LiteralSexp (LStr ''x'')) (Some [])) [] =
     Inr (DynamicAttr (Some ''href'') (Value (LStr ''x'')) None)"
    by (simp add: DynamicAttr_build_def truthy_def intern_def)
  have d3: "StatementSyntax_evaluate (DynamicAttr (Some ''href'') (Value (LStr ''x'')) (Some []))
       example_stack example_frame \<noteq>
     StatementSyntax_evaluate (DynamicAttr (Some ''href'') (Value (LStr ''x'')) None)
       example_stack example_frame"
    by (simp add: DynamicAttr_evaluate_def createMorph_def record_call_def Let_def)
  have i1: "StatementNodes_fromSpec (InlineSexp [''a.b''] None None False) [] =
     Inr (Inline [''a.b''] False (ParamsAndHash (Params []) (Hash [] [])))"
    by (simp add: Inline_fromSpec_def ParamsAndHash_fromSpec_def Params_fromSpec_def
        Hash_fromSpec_def Params_empty_def Hash_empty_def)
  have i2: "build_equivalent (InlineSexp [''a.b''] None None False) [] =
     Inr (Inline [''a'', ''b''] False (ParamsAndHash (Params []) (Hash [] [])))"
    by (simp add: Inline_build_def ParamsAndHash_fromSpec_def Params_fromSpec_def
        Hash_fromSpec_def Params_empty_def Hash_empty_def internPath_def intern_def)
  have i3: "StatementSyntax_evaluate (Inline [''a.b''] False (ParamsAndHash (Params []) (Hash [] [])))
       example_stack example_frame \<noteq>
     StatementSyntax_evaluate (Inline [''a'', ''b''] False (ParamsAndHash (Params []) (Hash [] [])))
       example_stack example_frame"
    by (simp add: Inline_evaluate_def example_frame_def createContentMorph_def record_call_def
        new_HelperInvocationReference_def addSource_def Let_def)
  have u1: "StatementNodes_fromSpec (UnknownSexp [] False) [] = Inr (Unknown (Ref []) False)"
    by (simp add: Unknown_fromSpec_def)
  have u2: "build_equivalent (UnknownSexp [] False) [] = Inr (Unknown (Ref [[]]) False)"
    by (simp add: Unknown_build_def Ref_build_def internPath_def intern_def)
  have u3: "StatementSyntax_evaluate (Unknown (Ref []) False) example_stack example_frame \<noteq>
     StatementSyntax_evaluate (Unknown (Ref [[]]) False) example_stack example_frame"
    by (simp add: Unknown_evaluate_def Ref_isHelper_def Ref_evaluate_def example_frame_def
        nth_js_def createContentMorph_def record_call_def Let_def)
  from c1 c2 c3 c4 c5 d1 d2 d3 i1 i2 i3 u1 u2 u3 show ?thesis by blast
qed

end
